theory Spec2Isabelle
  imports Complex_Main
begin

section \<open>Values of the host language\<close>

text \<open>
  The expectations of \<^verbatim>\<open>cachet_url_monitor/expectation.py\<close> read their settings from a
  configuration dictionary whose values come from a YAML file, and compare them with
  values decoded from JSON. Both are dynamically typed, so they are modelled by one
  datatype of Python values. A float is an exact rational or one of the three special
  values; a dictionary is an association list searched with \<open>map_of\<close>.
\<close>

datatype pyfloat = Finite rat | PosInf | NegInf | NaN

datatype pyval =
    PNone
  | PBool bool
  | PInt int
  | PFloat pyfloat
  | PStr string
  | PList "pyval list"
  | PDict "(string \<times> pyval) list"

text \<open>
  Modelled from the spec: \<open>ComponentStatus\<close> lives in
  \<^verbatim>\<open>cachet_url_monitor/status.py\<close>, which is not among the sources. Section 3 of the
  specification gives it as a closed enumeration of these four members.
\<close>

datatype ComponentStatus = OPERATIONAL | PERFORMANCE_ISSUES | PARTIAL_OUTAGE | MAJOR_OUTAGE

text \<open>
  An f-string is kept as the list of its pieces, so that a message can be inspected
  without fixing how every value prints.
\<close>

datatype frag = Txt string | Val pyval | Num int | Stat ComponentStatus

text \<open>The exceptions that the modelled code can raise.\<close>

datatype error =
    ConfigurationValidationError "frag list"
  | ValueError
  | KeyError string
  | TypeError
  | AttributeError
  | IndexError
  | JSONDecodeError
  | ReError

definition and_then :: "error + 'a \<Rightarrow> ('a \<Rightarrow> error + 'b) \<Rightarrow> error + 'b" where
  "and_then r f = (case r of Inl e \<Rightarrow> Inl e | Inr x \<Rightarrow> f x)"

text \<open>
  Numbers: \<open>bool\<close> is a subclass of \<open>int\<close> in Python (\<open>True == 1\<close>), and an
  \<open>int\<close> compares with a \<open>float\<close> by exact value.
\<close>

fun num_of :: "pyval \<Rightarrow> pyfloat option" where
  "num_of (PBool b) = Some (Finite (if b then 1 else 0))"
| "num_of (PInt i) = Some (Finite (of_int i))"
| "num_of (PFloat f) = Some f"
| "num_of _ = None"

fun float_eq :: "pyfloat \<Rightarrow> pyfloat \<Rightarrow> bool" where
  "float_eq (Finite a) (Finite b) = (a = b)"
| "float_eq PosInf PosInf = True"
| "float_eq NegInf NegInf = True"
| "float_eq _ _ = False"

fun float_le :: "pyfloat \<Rightarrow> pyfloat \<Rightarrow> bool" where
  "float_le NaN _ = False"
| "float_le _ NaN = False"
| "float_le NegInf _ = True"
| "float_le _ PosInf = True"
| "float_le (Finite a) (Finite b) = (a \<le> b)"
| "float_le _ _ = False"

text \<open>
  Python's \<open>==\<close> on these values. Two dictionaries are equal when they have the same
  keys and equal values under each key, whatever the order of their items.
\<close>

function (sequential) py_eq :: "pyval \<Rightarrow> pyval \<Rightarrow> bool" where
  "py_eq PNone PNone = True"
| "py_eq (PStr s) (PStr t) = (s = t)"
| "py_eq (PList xs) (PList ys) =
     (length xs = length ys \<and> (\<forall>(x, y) \<in> set (zip xs ys). py_eq x y))"
| "py_eq (PDict xs) (PDict ys) =
     (card (fst ` set xs) = card (fst ` set ys) \<and>
      (\<forall>k \<in> fst ` set xs.
         case (map_of xs k, map_of ys k) of
           (Some v, Some w) \<Rightarrow> py_eq v w
         | _ \<Rightarrow> False))"
| "py_eq a b =
     (case (num_of a, num_of b) of
        (Some x, Some y) \<Rightarrow> float_eq x y
      | _ \<Rightarrow> False)"
  by pat_completeness auto
termination
proof -
  have zip_left: "(x, y) \<in> set (zip xs ys) \<Longrightarrow> size x < Suc (size_list size xs)"
    for x y :: pyval and xs ys
  proof (induction xs arbitrary: ys)
    case Nil
    then show ?case by simp
  next
    case (Cons a xs)
    then show ?case by (cases ys) (auto dest: Cons.IH)
  qed
  have lookup: "map_of xs k = Some v \<Longrightarrow> size v < Suc (size_list (size_prod (\<lambda>x. 0) size) xs)"
    for v :: pyval and k :: string and xs
    by (induction xs) (auto split: if_splits)
  show ?thesis
    by (relation "measure (\<lambda>(a, b). size a)") (auto dest: zip_left lookup [OF sym])
qed

text \<open>\<open>int <= value\<close>: a \<open>TypeError\<close> when the right-hand side is no number.\<close>

definition int_le_py :: "int \<Rightarrow> pyval \<Rightarrow> error + bool" where
  "int_le_py i v =
     (case num_of v of
        None \<Rightarrow> Inl TypeError
      | Some f \<Rightarrow> Inr (float_le (Finite (of_int i)) f))"

text \<open>Lists and dictionaries cannot be hashed, so they cannot be looked up in a \<open>dict\<close>.\<close>

fun hashable :: "pyval \<Rightarrow> bool" where
  "hashable (PList _) = False"
| "hashable (PDict _) = False"
| "hashable _ = True"

section \<open>Strings\<close>

text \<open>\<open>s.split(c)\<close> for a separator of one character: the result is never empty.\<close>

fun str_split :: "char \<Rightarrow> string \<Rightarrow> string list" where
  "str_split c [] = [[]]"
| "str_split c (x # xs) =
     (if x = c then [] # str_split c xs
      else (case str_split c xs of
              [] \<Rightarrow> [[x]]
            | w # ws \<Rightarrow> (x # w) # ws))"

text \<open>
  The builtin \<open>int(s)\<close> on a string of ASCII characters: surrounding white space
  (the characters 9 to 13 and the blank, 32) is dropped, one sign is allowed, and the
  digits may be grouped by single underscores. Anything else raises \<open>ValueError\<close>. The
  interpreter's limit on the number of digits is left out.
\<close>

definition is_space :: "char \<Rightarrow> bool" where
  "is_space c = (let n = (of_char c :: nat) in (9 \<le> n \<and> n \<le> 13) \<or> n = 32)"

definition is_digit :: "char \<Rightarrow> bool" where
  "is_digit c = (let n = (of_char c :: nat) in 48 \<le> n \<and> n \<le> 57)"

definition digit_of :: "char \<Rightarrow> nat" where
  "digit_of c = of_char c - 48"

definition strip :: "string \<Rightarrow> string" where
  "strip s = rev (dropWhile is_space (rev (dropWhile is_space s)))"

fun digits_val :: "nat \<Rightarrow> string \<Rightarrow> nat option" where
  "digits_val acc [] = Some acc"
| "digits_val acc (c # cs) =
     (if is_digit c then digits_val (10 * acc + digit_of c) cs
      else if c = CHR ''_'' then
        (case cs of
           [] \<Rightarrow> None
         | d # ds \<Rightarrow> if is_digit d then digits_val (10 * acc + digit_of d) ds else None)
      else None)"

definition unsigned_int :: "string \<Rightarrow> nat option" where
  "unsigned_int s =
     (case s of
        [] \<Rightarrow> None
      | c # cs \<Rightarrow> if is_digit c then digits_val (digit_of c) cs else None)"

definition signed_int :: "string \<Rightarrow> int option" where
  "signed_int t =
     (case t of
        [] \<Rightarrow> None
      | c # cs \<Rightarrow>
          if c = CHR ''-'' then map_option (\<lambda>n. - int n) (unsigned_int cs)
          else if c = CHR ''+'' then map_option int (unsigned_int cs)
          else map_option int (unsigned_int t))"

definition py_int :: "string \<Rightarrow> error + int" where
  "py_int s = (case signed_int (strip s) of None \<Rightarrow> Inl ValueError | Some i \<Rightarrow> Inr i)"

section \<open>HttpStatus: the range of accepted status codes\<close>

text \<open>
  \<open>HttpStatus.parse_range\<close>. \<open>isinstance(range_string, int)\<close> holds for an \<open>int\<close> and
  for a \<open>bool\<close>; any other value that is not a string has no \<open>split\<close> method.
\<close>

definition parse_range :: "pyval \<Rightarrow> error + (int \<times> int)" where
  "parse_range range_string =
     (case range_string of
        PInt n \<Rightarrow> Inr (n, n + 1)
      | PBool b \<Rightarrow> Inr (of_bool b, of_bool b + 1)
      | PStr s \<Rightarrow>
          (let statuses = str_split CHR ''-'' s in
           if length statuses = 1 then
             and_then (py_int (statuses ! 0)) (\<lambda>lo.
             and_then (py_int (statuses ! 0)) (\<lambda>lo'. Inr (lo, lo' + 1)))
           else
             and_then (py_int (statuses ! 0)) (\<lambda>lo.
             and_then (py_int (statuses ! 1)) (\<lambda>hi. Inr (lo, hi))))
      | _ \<Rightarrow> Inl AttributeError)"

section \<open>The collaborators\<close>

text \<open>
  A probe response carries the fields the evaluators read. A \<open>result\<close> is what the
  reporting client and a webhook hand back: \<open>json_data_id\<close> is the value of
  \<open>json()["data"]["id"]\<close>, or the exception that this lookup raises.
\<close>

record response =
  status_code :: int
  elapsed_total_seconds :: pyfloat
  resp_text :: string

record result =
  ok :: bool
  result_status_code :: int
  json_data_id :: "error + pyval"

text \<open>
  The reporting client and the webhooks are outside the modelled code. Each is given by
  the answers it returns; the calls made to it are recorded as events. The keyword
  arguments \<open>previous_incident_id\<close> and \<open>message\<close> of the client's \<open>push_incident\<close>
  are \<open>None\<close> when the caller leaves them out.
\<close>

record client =
  get_component_name_and_status :: "pyval \<Rightarrow> string \<times> ComponentStatus"
  get_component_status :: "pyval \<Rightarrow> ComponentStatus"
  client_push_status :: "pyval \<Rightarrow> ComponentStatus \<Rightarrow> result"
  client_push_incident ::
    "ComponentStatus \<Rightarrow> pyval \<Rightarrow> pyval \<Rightarrow> string \<Rightarrow> pyval option \<Rightarrow> string option \<Rightarrow> result"

record webhook =
  url :: string
  webhook_push_incident :: "string \<Rightarrow> string \<Rightarrow> result"

datatype event =
    Get_component_name_and_status pyval
  | Get_component_status pyval
  | Push_status pyval ComponentStatus
  | Push_incident ComponentStatus pyval pyval string "pyval option" "string option"
  | Webhook_push_incident string string string
  | Log_info "frag list"
  | Log_warning "frag list"

section \<open>Expectations\<close>

text \<open>
  The four subclasses with the attributes their constructors set. A compiled regular
  expression is the predicate "matches at the start of this text".
\<close>

type_synonym pattern = "string \<Rightarrow> bool"

datatype evaluator =
    HttpStatus "int \<times> int"
  | Latency pyval
  | Regex pyval pattern
  | JsonFieldValueCheck pyval pyval "string list"

text \<open>
  The attributes that \<open>__init__\<close> sets only when \<open>component_id\<close> is not \<open>None\<close>.
  An expectation without them is unbound: every lifecycle method returns at once.
  \<open>incident_id\<close> is \<open>None\<close> while the object has no such attribute.
\<close>

record bound =
  component_id :: pyval
  componemt_name :: string
  component_status :: ComponentStatus
  previous_component_status :: ComponentStatus
  current_fails :: int
  trigger_update :: bool
  message :: string
  allowed_fails :: pyval
  incident_id :: "pyval option"

record expectation =
  kind :: evaluator
  incident_status :: ComponentStatus
  independent :: pyval
  binding :: "bound option"

type_synonym configuration = "string \<rightharpoonup> pyval"

definition configuration_get :: "configuration \<Rightarrow> string \<Rightarrow> pyval \<Rightarrow> pyval" where
  "configuration_get cfg k d = (case cfg k of None \<Rightarrow> d | Some v \<Rightarrow> v)"

definition configuration_item :: "configuration \<Rightarrow> string \<Rightarrow> error + pyval" where
  "configuration_item cfg k = (case cfg k of None \<Rightarrow> Inl (KeyError k) | Some v \<Rightarrow> Inr v)"

text \<open>
  \<open>parse_incident_status\<close>. \<open>INCIDENT_MAP\<close> is a table of \<^verbatim>\<open>status.py\<close>, which is
  not among the sources: it is the parameter \<open>incident_map\<close>, from labels to statuses.
\<close>

definition parse_incident_status ::
  "(string \<rightharpoonup> ComponentStatus) \<Rightarrow> ComponentStatus \<Rightarrow> configuration \<Rightarrow> error + ComponentStatus"
where
  "parse_incident_status incident_map get_default_incident cfg =
     (let label = configuration_get cfg ''incident'' PNone in
      if \<not> hashable label then Inl TypeError
      else case label of
             PStr s \<Rightarrow> Inr (case incident_map s of None \<Rightarrow> get_default_incident | Some st \<Rightarrow> st)
           | _ \<Rightarrow> Inr get_default_incident)"

text \<open>\<open>Expectation.__init__\<close>, with the evaluator's own attributes already set.\<close>

definition init ::
  "(string \<rightharpoonup> ComponentStatus) \<Rightarrow> ComponentStatus \<Rightarrow> evaluator \<Rightarrow> configuration \<Rightarrow> client
     \<Rightarrow> error + (expectation \<times> event list)"
where
  "init incident_map get_default_incident knd cfg cl =
     and_then (parse_incident_status incident_map get_default_incident cfg) (\<lambda>ist.
       let cid = configuration_get cfg ''component_id'' PNone in
       if cid \<noteq> PNone then
         let (name, st) = get_component_name_and_status cl cid in
         Inr (\<lparr>kind = knd, incident_status = ist,
               independent = configuration_get cfg ''is_independent'' (PBool False),
               binding = Some \<lparr>component_id = cid, componemt_name = name,
                 component_status = st, previous_component_status = st,
                 current_fails = 0, trigger_update = True, message = [],
                 allowed_fails = configuration_get cfg ''allowed_fails'' PNone,
                 incident_id = None\<rparr>\<rparr>,
              [Get_component_name_and_status cid])
       else
         Inr (\<lparr>kind = knd, incident_status = ist, independent = PBool False, binding = None\<rparr>,
              []))"

text \<open>The constructors of the subclasses, each with its \<open>get_default_incident\<close>.\<close>

definition HttpStatus_init ::
  "(string \<rightharpoonup> ComponentStatus) \<Rightarrow> configuration \<Rightarrow> client \<Rightarrow> error + (expectation \<times> event list)"
where
  "HttpStatus_init incident_map cfg cl =
     and_then (configuration_item cfg ''status_range'') (\<lambda>r.
     and_then (parse_range r) (\<lambda>status_range.
       init incident_map PARTIAL_OUTAGE (HttpStatus status_range) cfg cl))"

definition Latency_init ::
  "(string \<rightharpoonup> ComponentStatus) \<Rightarrow> configuration \<Rightarrow> client \<Rightarrow> error + (expectation \<times> event list)"
where
  "Latency_init incident_map cfg cl =
     and_then (configuration_item cfg ''threshold'') (\<lambda>threshold.
       init incident_map PERFORMANCE_ISSUES (Latency threshold) cfg cl)"

text \<open>\<open>re.compile\<close> belongs to the standard library: it is the parameter \<open>re_compile\<close>.\<close>

definition Regex_init ::
  "(string \<rightharpoonup> ComponentStatus) \<Rightarrow> (pyval \<Rightarrow> error + pattern) \<Rightarrow> configuration \<Rightarrow> client
     \<Rightarrow> error + (expectation \<times> event list)"
where
  "Regex_init incident_map re_compile cfg cl =
     and_then (configuration_item cfg ''regex'') (\<lambda>regex_string.
     and_then (configuration_item cfg ''regex'') (\<lambda>r.
     and_then (re_compile r) (\<lambda>regex.
       init incident_map PARTIAL_OUTAGE (Regex regex_string regex) cfg cl)))"

definition JsonFieldValueCheck_init ::
  "(string \<rightharpoonup> ComponentStatus) \<Rightarrow> configuration \<Rightarrow> client \<Rightarrow> error + (expectation \<times> event list)"
where
  "JsonFieldValueCheck_init incident_map cfg cl =
     and_then (configuration_item cfg ''field'') (\<lambda>field.
     and_then (configuration_item cfg ''value'') (\<lambda>val.
     and_then (case field of PStr s \<Rightarrow> Inr (str_split CHR ''.'' s) | _ \<Rightarrow> Inl AttributeError)
       (\<lambda>all_fields.
       init incident_map PARTIAL_OUTAGE (JsonFieldValueCheck field val all_fields) cfg cl)))"

text \<open>
  \<open>Expectation.create\<close>. Looking the type up in the table of constructors hashes it
  first; the keys of that table are strings, so no other value is found in it.
\<close>

type_synonym constructor = "configuration \<Rightarrow> client \<Rightarrow> error + (expectation \<times> event list)"

definition expectations ::
  "(string \<rightharpoonup> ComponentStatus) \<Rightarrow> (pyval \<Rightarrow> error + pattern) \<Rightarrow> (string \<times> constructor) list"
where
  "expectations incident_map re_compile =
     [(''HTTP_STATUS'', HttpStatus_init incident_map),
      (''LATENCY'', Latency_init incident_map),
      (''REGEX'', Regex_init incident_map re_compile),
      (''JSON_CHECK'', JsonFieldValueCheck_init incident_map)]"

definition create ::
  "(string \<rightharpoonup> ComponentStatus) \<Rightarrow> (pyval \<Rightarrow> error + pattern) \<Rightarrow> configuration \<Rightarrow> client
     \<Rightarrow> error + (expectation \<times> event list)"
where
  "create incident_map re_compile cfg cl =
     and_then (configuration_item cfg ''type'') (\<lambda>ty.
       if \<not> hashable ty then Inl TypeError
       else
         case (case ty of
                 PStr s \<Rightarrow> map_of (expectations incident_map re_compile) s
               | _ \<Rightarrow> None) of
           None \<Rightarrow> Inl (ConfigurationValidationError [Txt ''Invalid type: '', Val ty])
         | Some cls \<Rightarrow> cls cfg cl)"

section \<open>The evaluators\<close>

definition HttpStatus_get_status :: "int \<times> int \<Rightarrow> ComponentStatus \<Rightarrow> response \<Rightarrow> ComponentStatus" where
  "HttpStatus_get_status status_range incident_status' resp =
     (if fst status_range \<le> status_code resp \<and> status_code resp < snd status_range
      then OPERATIONAL else incident_status')"

definition float_le_py :: "pyfloat \<Rightarrow> pyval \<Rightarrow> error + bool" where
  "float_le_py x v = (case num_of v of None \<Rightarrow> Inl TypeError | Some f \<Rightarrow> Inr (float_le x f))"

definition Latency_get_status :: "pyval \<Rightarrow> ComponentStatus \<Rightarrow> response \<Rightarrow> error + ComponentStatus" where
  "Latency_get_status threshold incident_status' resp =
     and_then (float_le_py (elapsed_total_seconds resp) threshold) (\<lambda>fast.
       if fast then Inr OPERATIONAL else Inr incident_status')"

definition Regex_get_status :: "pattern \<Rightarrow> ComponentStatus \<Rightarrow> response \<Rightarrow> ComponentStatus" where
  "Regex_get_status regex incident_status' resp =
     (if regex (resp_text resp) then OPERATIONAL else incident_status')"

text \<open>\<open>d.get(k, default)\<close>: only a dictionary has the method.\<close>

definition dict_get :: "pyval \<Rightarrow> string \<Rightarrow> pyval \<Rightarrow> error + pyval" where
  "dict_get d k dflt =
     (case d of
        PDict items \<Rightarrow> Inr (case map_of items k of None \<Rightarrow> dflt | Some v \<Rightarrow> v)
      | _ \<Rightarrow> Inl AttributeError)"

text \<open>The loop of \<open>JsonFieldValueCheck.get_status\<close> over all fields but the last.\<close>

fun walk :: "pyval \<Rightarrow> string list \<Rightarrow> error + pyval" where
  "walk tmpDict [] = Inr tmpDict"
| "walk tmpDict (f # fs) =
     (case dict_get tmpDict f (PDict []) of
        Inl e \<Rightarrow> Inl e
      | Inr d \<Rightarrow> walk d fs)"

text \<open>
  The body of the \<open>try\<close> block up to the value it compares. \<open>json.loads\<close> belongs to
  the standard library: it is the parameter \<open>json_loads\<close>.
\<close>

definition JsonFieldValueCheck_value ::
  "(string \<Rightarrow> error + pyval) \<Rightarrow> string list \<Rightarrow> response \<Rightarrow> error + pyval"
where
  "JsonFieldValueCheck_value json_loads all_fields resp =
     and_then (json_loads (resp_text resp)) (\<lambda>respJson.
     and_then (walk respJson (take (length all_fields - 1) all_fields)) (\<lambda>tmpDict.
     and_then (if all_fields = [] then Inl IndexError else Inr (last all_fields)) (\<lambda>f.
       dict_get tmpDict f PNone)))"

definition JsonFieldValueCheck_get_status ::
  "(string \<Rightarrow> error + pyval) \<Rightarrow> string list \<Rightarrow> pyval \<Rightarrow> ComponentStatus \<Rightarrow> response
     \<Rightarrow> ComponentStatus"
where
  "JsonFieldValueCheck_get_status json_loads all_fields val incident_status' resp =
     (case JsonFieldValueCheck_value json_loads all_fields resp of
        Inl e \<Rightarrow> incident_status'
      | Inr v \<Rightarrow> if py_eq v val then OPERATIONAL else incident_status')"

text \<open>\<open>self.get_status(response)\<close>: the method of the object's class.\<close>

definition get_status ::
  "(string \<Rightarrow> error + pyval) \<Rightarrow> expectation \<Rightarrow> response \<Rightarrow> error + ComponentStatus"
where
  "get_status json_loads e resp =
     (case kind e of
        HttpStatus status_range \<Rightarrow> Inr (HttpStatus_get_status status_range (incident_status e) resp)
      | Latency threshold \<Rightarrow> Latency_get_status threshold (incident_status e) resp
      | Regex regex_string regex \<Rightarrow> Inr (Regex_get_status regex (incident_status e) resp)
      | JsonFieldValueCheck field val all_fields \<Rightarrow>
          Inr (JsonFieldValueCheck_get_status json_loads all_fields val (incident_status e) resp))"

section \<open>The lifecycle of a bound expectation\<close>

text \<open>
  \<open>get_message\<close>, abstract in the base class, is a parameter of the methods below:
  what the subclasses make of it plays no part in what they do with it. \<open>logger\<close>
  tells whether a logger was passed.
\<close>

definition update_component_status ::
  "(response \<Rightarrow> string) \<Rightarrow> ComponentStatus \<Rightarrow> response \<Rightarrow> expectation \<Rightarrow> expectation"
where
  "update_component_status get_message status resp e =
     (case binding e of
        None \<Rightarrow> e
      | Some b \<Rightarrow>
          e\<lparr>binding := Some (b\<lparr>previous_component_status := component_status b,
                                 component_status := status,
                                 message := get_message resp\<rparr>)\<rparr>)"

definition is_independent :: "expectation \<Rightarrow> pyval" where
  "is_independent e = (case binding e of None \<Rightarrow> PBool False | Some b \<Rightarrow> independent e)"

definition get_current_status :: "expectation \<Rightarrow> ComponentStatus option" where
  "get_current_status e = map_option component_status (binding e)"

text \<open>The threshold of \<open>if_trigger_update\<close>: the object's own when it has one.\<close>

definition effective_allowed_fails :: "bound \<Rightarrow> pyval \<Rightarrow> pyval" where
  "effective_allowed_fails b allowed_fails' =
     (if allowed_fails b \<noteq> PNone then allowed_fails b else allowed_fails')"

definition if_trigger_update :: "pyval \<Rightarrow> bool \<Rightarrow> expectation \<Rightarrow> error + (expectation \<times> event list)" where
  "if_trigger_update allowed_fails' logger e =
     (case binding e of
        None \<Rightarrow> Inr (e, [])
      | Some b \<Rightarrow>
          let threshold = effective_allowed_fails b allowed_fails' in
          if component_status b \<noteq> OPERATIONAL then
            let fails = current_fails b + 1;
                logged = (if logger
                          then [Log_warning [Txt ''Failure #'', Num fails,
                                             Txt '' with threshold set to '', Val threshold]]
                          else [])
            in and_then (int_le_py fails threshold) (\<lambda>tolerated.
                 if tolerated
                 then Inr (e\<lparr>binding := Some (b\<lparr>current_fails := fails,
                                                     trigger_update := False\<rparr>)\<rparr>, logged)
                 else Inr (e\<lparr>binding := Some (b\<lparr>current_fails := 0,
                                                     trigger_update := True\<rparr>)\<rparr>, logged))
          else Inr (e\<lparr>binding := Some (b\<lparr>current_fails := 0, trigger_update := True\<rparr>)\<rparr>, []))"

definition push_status :: "client \<Rightarrow> bool \<Rightarrow> expectation \<Rightarrow> expectation \<times> event list" where
  "push_status cl logger e =
     (case binding e of
        None \<Rightarrow> (e, [])
      | Some b \<Rightarrow>
          if previous_component_status b = component_status b then
            (e\<lparr>binding := Some (b\<lparr>trigger_update := False\<rparr>)\<rparr>,
             if logger then [Log_info [Txt ''No changes to component status.'']] else [])
          else
            let b' = b\<lparr>previous_component_status := component_status b\<rparr>;
                e' = e\<lparr>binding := Some b'\<rparr>
            in if \<not> trigger_update b' then (e', [])
               else
                 let api_component_status = get_component_status cl (component_id b') in
                 if component_status b' = api_component_status
                 then (e', [Get_component_status (component_id b')])
                 else
                   let component_request =
                         client_push_status cl (component_id b') (component_status b')
                   in (e',
                       [Get_component_status (component_id b'),
                        Push_status (component_id b') (component_status b')] @
                       (if logger then
                          (if ok component_request
                           then [Log_info [Txt ''Component update: status ['',
                                           Stat (component_status b'), Txt '']'']]
                           else [Log_warning [Txt ''Component update failed with HTTP status: '',
                                              Num (result_status_code component_request),
                                              Txt ''. API status: '',
                                              Stat (component_status b')]])
                        else [])))"

text \<open>The local variable \<open>title\<close> of \<open>trigger_webhooks\<close>.\<close>

definition title :: "string \<Rightarrow> bound \<Rightarrow> string" where
  "title endpoint_name b =
     (if component_status b = PERFORMANCE_ISSUES
      then endpoint_name @ '' (Component '' @ componemt_name b @ '') degraded''
      else if component_status b = OPERATIONAL
      then endpoint_name @ '' (Component '' @ componemt_name b @ '') OK''
      else endpoint_name @ '' (Component '' @ componemt_name b @ '') unavailable'')"

text \<open>The loop of \<open>trigger_webhooks\<close> over the webhooks.\<close>

fun fire :: "string \<Rightarrow> string \<Rightarrow> string \<Rightarrow> bool \<Rightarrow> webhook list \<Rightarrow> event list" where
  "fire ttl incident_title msg logger [] = []"
| "fire ttl incident_title msg logger (w # ws) =
     (let webhook_request = webhook_push_incident w incident_title msg
      in Webhook_push_incident (url w) incident_title msg #
         (if ok webhook_request
          then (if logger
                then [Log_info [Txt ''Webhook '', Txt (url w), Txt '' triggered with '', Txt ttl]]
                else [])
          else (if logger
                then [Log_warning [Txt ''Webhook '', Txt (url w), Txt '' failed with status ['',
                                   Num (result_status_code webhook_request), Txt '']'']]
                else [])) @
         fire ttl incident_title msg logger ws)"

definition trigger_webhooks ::
  "string \<Rightarrow> string \<Rightarrow> webhook list \<Rightarrow> bool \<Rightarrow> expectation \<Rightarrow> event list"
where
  "trigger_webhooks endpoint_name incident_title webhooks logger e =
     (case binding e of
        None \<Rightarrow> []
      | Some b \<Rightarrow> fire (title endpoint_name b) incident_title (message b) logger webhooks)"

definition quoted :: "string \<Rightarrow> string" where
  "quoted s = CHR 0x22 # s @ [CHR 0x22]"

text \<open>
  \<open>push_incident\<close>. It calls \<open>trigger_webhooks\<close> without a logger, on the object as
  the branch has left it.
\<close>

definition push_incident ::
  "client \<Rightarrow> pyval \<Rightarrow> string \<Rightarrow> string \<Rightarrow> webhook list \<Rightarrow> bool \<Rightarrow> expectation
     \<Rightarrow> error + (expectation \<times> event list)"
where
  "push_incident cl public_incidents endpoint_name incident_title webhooks logger e =
     (case binding e of
        None \<Rightarrow> Inr (e, [])
      | Some b \<Rightarrow>
          if \<not> trigger_update b then Inr (e, [])
          else if incident_id b \<noteq> None \<and> component_status b = OPERATIONAL then
            let incident_request =
                  client_push_incident cl (component_status b) public_incidents (component_id b)
                    incident_title (incident_id b) None;
                call = Push_incident (component_status b) public_incidents (component_id b)
                         incident_title (incident_id b) None;
                e' = (if ok incident_request then e\<lparr>binding := Some (b\<lparr>incident_id := None\<rparr>)\<rparr>
                      else e);
                logged =
                  (if logger then
                     (if ok incident_request
                      then [Log_info [Txt ''Incident updated, API healthy again: component status ['',
                                      Stat (component_status b), Txt ''], message: '',
                                      Txt (quoted (message b))]]
                      else [Log_warning [Txt ''Incident update failed with status ['',
                                         Num (result_status_code incident_request),
                                         Txt ''], message: '', Txt (quoted (message b))]])
                   else [])
            in Inr (e', call # logged @
                        trigger_webhooks endpoint_name incident_title webhooks False e')
          else if incident_id b = None \<and> component_status b \<noteq> OPERATIONAL then
            let incident_request =
                  client_push_incident cl (component_status b) public_incidents (component_id b)
                    incident_title None (Some (message b));
                call = Push_incident (component_status b) public_incidents (component_id b)
                         incident_title None (Some (message b))
            in if ok incident_request then
                 and_then (json_data_id incident_request) (\<lambda>new_id.
                   let e' = e\<lparr>binding := Some (b\<lparr>incident_id := Some new_id\<rparr>)\<rparr>
                   in Inr (e', call #
                        (if logger
                         then [Log_info [Txt ''Incident uploaded, API unhealthy: component status ['',
                                         Stat (component_status b), Txt ''], message: '',
                                         Txt (quoted (message b))]]
                         else []) @
                        trigger_webhooks endpoint_name incident_title webhooks False e'))
               else
                 Inr (e, call #
                      (if logger
                       then [Log_warning [Txt ''Incident upload failed with status ['',
                                          Num (result_status_code incident_request),
                                          Txt ''], message: '', Txt (quoted (message b))]]
                       else []) @
                      trigger_webhooks endpoint_name incident_title webhooks False e)
          else Inr (e, []))"

section \<open>One probe cycle\<close>

text \<open>
  Modelled from the spec: the controller that drives an expectation once per probe is not
  among the sources. \<open>cycle_input\<close> collects what it passes to the steps of one cycle:
  the probe response, the client, the default threshold, the visibility of incidents, the
  endpoint's name, the incident title, the webhooks, and whether there is a logger.
\<close>

record cycle_input =
  cy_probe :: response
  cy_client :: client
  cy_allowed_fails :: pyval
  cy_public_incidents :: pyval
  cy_endpoint_name :: string
  cy_incident_title :: string
  cy_webhooks :: "webhook list"
  cy_logger :: bool

text \<open>
  Modelled from the spec: the first two steps of a cycle as section 4.2 of the
  specification orders them, evaluate and then the damping decision. The result is the
  object as \<open>push_status\<close> finds it.
\<close>

definition evaluate_and_damp ::
  "(string \<Rightarrow> error + pyval) \<Rightarrow> (response \<Rightarrow> string) \<Rightarrow> cycle_input \<Rightarrow> expectation
     \<Rightarrow> error + (expectation \<times> event list)"
where
  "evaluate_and_damp json_loads get_message inp e =
     and_then (get_status json_loads e (cy_probe inp)) (\<lambda>status.
       if_trigger_update (cy_allowed_fails inp) (cy_logger inp)
         (update_component_status get_message status (cy_probe inp) e))"

text \<open>
  Modelled from the spec: one cycle of the controller, in the order of section 4.2 of the
  specification: evaluate, damping decision, status push, incident push (which fires the
  webhooks).
\<close>

definition cycle ::
  "(string \<Rightarrow> error + pyval) \<Rightarrow> (response \<Rightarrow> string) \<Rightarrow> cycle_input \<Rightarrow> expectation
     \<Rightarrow> error + (expectation \<times> event list)"
where
  "cycle json_loads get_message inp e =
     and_then (evaluate_and_damp json_loads get_message inp e) (\<lambda>(e2, l2).
       let (e3, l3) = push_status (cy_client inp) (cy_logger inp) e2 in
       and_then (push_incident (cy_client inp) (cy_public_incidents inp) (cy_endpoint_name inp)
                   (cy_incident_title inp) (cy_webhooks inp) (cy_logger inp) e3) (\<lambda>(e4, l4).
         Inr (e4, l2 @ l3 @ l4)))"

text \<open>
  Modelled from the spec: the cycles of one expectation run one after the other (section 5
  of the specification). An exception ends the sequence.
\<close>

fun run ::
  "(string \<Rightarrow> error + pyval) \<Rightarrow> (response \<Rightarrow> string) \<Rightarrow> expectation \<Rightarrow> cycle_input list
     \<Rightarrow> error + (expectation \<times> event list)"
where
  "run json_loads get_message e [] = Inr (e, [])"
| "run json_loads get_message e (inp # inps) =
     (case cycle json_loads get_message inp e of
        Inl err \<Rightarrow> Inl err
      | Inr (e', l) \<Rightarrow>
          (case run json_loads get_message e' inps of
             Inl err \<Rightarrow> Inl err
           | Inr (e'', l') \<Rightarrow> Inr (e'', l @ l')))"

section \<open>Notions used to state the properties\<close>

text \<open>The keys of the table of constructors in \<open>create\<close>, as values.\<close>

definition known_types :: "pyval set" where
  "known_types = {PStr ''HTTP_STATUS'', PStr ''LATENCY'', PStr ''REGEX'', PStr ''JSON_CHECK''}"

text \<open>A failure that stays within the threshold \<open>t\<close>.\<close>

definition damped :: "bound \<Rightarrow> int \<Rightarrow> bool" where
  "damped b t \<longleftrightarrow> component_status b \<noteq> OPERATIONAL \<and> current_fails b + 1 \<le> t"

text \<open>
  On a trace of events: the calls that write a component status to the backend, the
  entries that are only logged, and the calls to a webhook.
\<close>

fun is_push_status :: "event \<Rightarrow> bool" where
  "is_push_status (Push_status _ _) = True"
| "is_push_status _ = False"

fun is_log :: "event \<Rightarrow> bool" where
  "is_log (Log_info _) = True"
| "is_log (Log_warning _) = True"
| "is_log _ = False"

fun is_webhook_call :: "event \<Rightarrow> bool" where
  "is_webhook_call (Webhook_push_incident _ _ _) = True"
| "is_webhook_call _ = False"

text \<open>
  The number of places where a sequence of classifications differs from the status
  before it, \<open>s\<close> being the status before the first.
\<close>

fun changes :: "ComponentStatus \<Rightarrow> ComponentStatus list \<Rightarrow> nat" where
  "changes s [] = 0"
| "changes s (x # xs) = (if x \<noteq> s then 1 else 0) + changes x xs"

text \<open>What one webhook adds to the trace: the call, and its log entry when there is a logger.\<close>

definition delivery :: "string \<Rightarrow> string \<Rightarrow> string \<Rightarrow> bool \<Rightarrow> webhook \<Rightarrow> event list" where
  "delivery ttl it msg lg w =
     Webhook_push_incident (url w) it msg #
     (if \<not> lg then []
      else if ok (webhook_push_incident w it msg)
      then [Log_info [Txt ''Webhook '', Txt (url w), Txt '' triggered with '', Txt ttl]]
      else [Log_warning [Txt ''Webhook '', Txt (url w), Txt '' failed with status ['',
                         Num (result_status_code (webhook_push_incident w it msg)), Txt '']'']])"

text \<open>
  The dotted path as the specification words it. Section 4.1 describes the traversal of
  \<open>JsonFieldValueCheck\<close>: walk all segments but the last through nested mappings, a
  missing segment giving an empty mapping, then look the last segment up.
  \<open>dotted_path_value\<close> follows these words, a last segment that is missing giving
  \<open>None\<close> as the lookup of the code does; the result is no value at all when something
  met on the way is no mapping. \<open>path_present\<close> tells whether every segment of the path
  is a key of the mapping reached before it.
\<close>

fun dotted_path_value :: "pyval \<Rightarrow> string list \<Rightarrow> pyval option" where
  "dotted_path_value d [] = None"
| "dotted_path_value d [k] =
     (case d of
        PDict items \<Rightarrow> Some (case map_of items k of None \<Rightarrow> PNone | Some v \<Rightarrow> v)
      | _ \<Rightarrow> None)"
| "dotted_path_value d (k # k' # ks) =
     (case d of
        PDict items \<Rightarrow>
          dotted_path_value (case map_of items k of None \<Rightarrow> PDict [] | Some v \<Rightarrow> v) (k' # ks)
      | _ \<Rightarrow> None)"

fun path_present :: "pyval \<Rightarrow> string list \<Rightarrow> bool" where
  "path_present d [] = True"
| "path_present d (k # ks) =
     (case d of
        PDict items \<Rightarrow> (case map_of items k of None \<Rightarrow> False | Some v \<Rightarrow> path_present v ks)
      | _ \<Rightarrow> False)"

section \<open>Sample collaborators and configurations\<close>

text \<open>
  Concrete values on which the theorems are instantiated: a client whose calls succeed
  and that reports the component as operational, and one whose incident calls fail.
\<close>

definition example_client :: client where
  "example_client =
     \<lparr>get_component_name_and_status = (\<lambda>_. (''web'', OPERATIONAL)),
      get_component_status = (\<lambda>_. OPERATIONAL),
      client_push_status =
        (\<lambda>_ _. \<lparr>ok = True, result_status_code = 200, json_data_id = Inl JSONDecodeError\<rparr>),
      client_push_incident =
        (\<lambda>_ _ _ _ _ _. \<lparr>ok = True, result_status_code = 200, json_data_id = Inr (PInt 7)\<rparr>)\<rparr>"



definition example_incident_map :: "string \<rightharpoonup> ComponentStatus" where
  "example_incident_map = [''MAJOR'' \<mapsto> MAJOR_OUTAGE]"

text \<open>A bound expectation on the status codes from 200 to 299, healthy, tolerating two failures.\<close>

definition example_bound :: bound where
  "example_bound =
     \<lparr>component_id = PInt 3, componemt_name = ''web'',
      component_status = OPERATIONAL, previous_component_status = OPERATIONAL,
      current_fails = 0, trigger_update = True, message = [],
      allowed_fails = PInt 2, incident_id = None\<rparr>"

definition example_expectation :: expectation where
  "example_expectation =
     \<lparr>kind = HttpStatus (200, 300), incident_status = PARTIAL_OUTAGE,
      independent = PBool False, binding = Some example_bound\<rparr>"

text \<open>A webhook whose deliveries fail, one whose deliveries succeed.\<close>

definition example_webhook :: webhook where
  "example_webhook =
     \<lparr>url = ''http://hook'',
      webhook_push_incident =
        (\<lambda>_ _. \<lparr>ok = False, result_status_code = 500, json_data_id = Inl JSONDecodeError\<rparr>)\<rparr>"

definition example_webhook_ok :: webhook where
  "example_webhook_ok =
     \<lparr>url = ''http://ok'',
      webhook_push_incident =
        (\<lambda>_ _. \<lparr>ok = True, result_status_code = 200, json_data_id = Inl JSONDecodeError\<rparr>)\<rparr>"

text \<open>What a controller passes in a cycle whose probe answered with the given status code.\<close>

definition example_input :: "int \<Rightarrow> cycle_input" where
  "example_input code =
     \<lparr>cy_probe = \<lparr>status_code = code, elapsed_total_seconds = Finite 0, resp_text = []\<rparr>,
      cy_client = example_client, cy_allowed_fails = PInt 0, cy_public_incidents = PBool True,
      cy_endpoint_name = ''api'', cy_incident_title = ''Incident'',
      cy_webhooks = [example_webhook], cy_logger = False\<rparr>"

text \<open>
  A body as the tests of the repository use it, and a stand-in for \<open>json.loads\<close> that
  decodes the three texts of the examples and rejects the text "<html>".
\<close>

definition example_body :: string where
  "example_body =
     ''{'' @ quoted ''data'' @ '': {'' @ quoted ''status'' @ '': '' @ quoted ''UP'' @ '', '' @
     quoted ''other'' @ '': 3}}''"

definition example_json_loads :: "string \<Rightarrow> error + pyval" where
  "example_json_loads t =
     (if t = ''{}'' then Inr (PDict [])
      else if t = ''[1]'' then Inr (PList [PInt 1])
      else if t = example_body
      then Inr (PDict [(''data'', PDict [(''status'', PStr ''UP''), (''other'', PInt 3)])])
      else Inl JSONDecodeError)"

section \<open>Parsing the range of status codes\<close>

lemmas py_int_defs = py_int_def strip_def is_space_def signed_int_def unsigned_int_def
  is_digit_def digit_of_def

lemma str_split_nonempty: "str_split c s \<noteq> []"
  by (induction s) (auto split: list.splits)

lemma str_split_no_sep: "c \<notin> set s \<Longrightarrow> str_split c s = [s]"
  by (induction s) auto

lemma str_split_first: "c \<notin> set a \<Longrightarrow> str_split c (a @ c # t) = a # str_split c t"
  by (induction a) (auto split: list.splits)

lemma py_int_error: "py_int s = Inl e \<Longrightarrow> e = ValueError"
  by (auto simp: py_int_def split: option.splits)

lemma parse_range_single:
  "CHR ''-'' \<notin> set a \<Longrightarrow> py_int a = Inr n \<Longrightarrow> parse_range (PStr a) = Inr (n, n + 1)"
  by (simp add: parse_range_def str_split_no_sep and_then_def)

lemma parse_range_pair:
  assumes "CHR ''-'' \<notin> set a" "py_int a = Inr lo" "py_int b = Inr hi" "CHR ''-'' \<notin> set b"
  shows "parse_range (PStr (a @ CHR ''-'' # b)) = Inr (lo, hi)"
  using assms
  by (simp add: parse_range_def str_split_first str_split_no_sep and_then_def)

lemma parse_range_more:
  assumes "CHR ''-'' \<notin> set a" "CHR ''-'' \<notin> set b"
  shows "parse_range (PStr (a @ CHR ''-'' # b @ CHR ''-'' # rest)) = parse_range (PStr (a @ CHR ''-'' # b))"
  using assms str_split_nonempty [of "CHR ''-''" rest]
  by (simp add: parse_range_def str_split_first str_split_no_sep and_then_def split: sum.splits)

lemma parse_range_str_fails:
  "(\<exists>e. parse_range (PStr s) = Inl e) \<longleftrightarrow>
     (let statuses = str_split CHR ''-'' s in
      py_int (statuses ! 0) = Inl ValueError \<or>
      (1 < length statuses \<and> py_int (statuses ! 1) = Inl ValueError))"
  using str_split_nonempty [of "CHR ''-''" s]
  apply (cases "str_split CHR ''-'' s")
   apply simp
  subgoal for x xs
    by (cases xs) (auto simp: parse_range_def and_then_def Let_def dest: py_int_error split: sum.splits)
  done

lemma parse_range_str_error: "parse_range (PStr s) = Inl e \<Longrightarrow> e = ValueError"
  by (auto simp: parse_range_def and_then_def Let_def dest: py_int_error split: sum.splits if_splits)

lemma parse_range_other:
  "parse_range PNone = Inl AttributeError" "parse_range (PFloat f) = Inl AttributeError"
  "parse_range (PList xs) = Inl AttributeError" "parse_range (PDict kvs) = Inl AttributeError"
  by (simp_all add: parse_range_def)

text \<open>
  Claim C7, as the code has it. \<open>parse_range\<close> maps the integer 200 and the string
  "200" to (200, 201) and "200-300" to (200, 300). A string is split at every dash: one
  field \<open>n\<close> gives \<open>(n, n + 1)\<close>; with two or more fields the first two give
  \<open>(low, high)\<close> and the others are not looked at. It fails, with \<open>ValueError\<close>,
  exactly when a field it reads is no integer literal, as for "foo". A \<open>bool\<close> passes
  for an integer; a value of any other type fails with \<open>AttributeError\<close>.
\<close>

theorem parse_range_reads_first_two_fields:
  "parse_range (PInt 200) = Inr (200, 201) \<and>
   parse_range (PStr ''200'') = Inr (200, 201) \<and>
   parse_range (PStr ''200-300'') = Inr (200, 300) \<and>
   parse_range (PStr ''foo'') = Inl ValueError \<and>
   parse_range (PInt n) = Inr (n, n + 1) \<and>
   (CHR ''-'' \<notin> set a \<and> py_int a = Inr lo \<longrightarrow> parse_range (PStr a) = Inr (lo, lo + 1)) \<and>
   (CHR ''-'' \<notin> set a \<and> CHR ''-'' \<notin> set b \<and> py_int a = Inr lo \<and> py_int b = Inr hi \<longrightarrow>
      parse_range (PStr (a @ ''-'' @ b)) = Inr (lo, hi) \<and>
      parse_range (PStr (a @ ''-'' @ b @ ''-'' @ rest)) = Inr (lo, hi)) \<and>
   ((\<exists>e. parse_range (PStr s) = Inl e) \<longleftrightarrow>
      py_int (str_split CHR ''-'' s ! 0) = Inl ValueError \<or>
      (1 < length (str_split CHR ''-'' s) \<and> py_int (str_split CHR ''-'' s ! 1) = Inl ValueError)) \<and>
   (parse_range (PStr s) = Inl e \<longrightarrow> e = ValueError) \<and>
   parse_range (PBool t) = Inr (of_bool t, of_bool t + 1) \<and>
   (v \<in> {PNone, PFloat f, PList xs, PDict kvs} \<longrightarrow> parse_range v = Inl AttributeError)"
proof -
  have concrete:
    "parse_range (PInt 200) = Inr (200, 201)" "parse_range (PStr ''200'') = Inr (200, 201)"
    "parse_range (PStr ''200-300'') = Inr (200, 300)" "parse_range (PStr ''foo'') = Inl ValueError"
    by (simp_all add: parse_range_def and_then_def py_int_defs)
  have ints: "parse_range (PInt n) = Inr (n, n + 1)"
    "parse_range (PBool t) = Inr (of_bool t, of_bool t + 1)"
    by (simp_all add: parse_range_def)
  have more: "parse_range (PStr (a @ ''-'' @ b @ ''-'' @ rest)) = Inr (lo, hi)"
    if "CHR ''-'' \<notin> set a" "CHR ''-'' \<notin> set b" "py_int a = Inr lo" "py_int b = Inr hi"
    using that parse_range_more [of a b rest] parse_range_pair [of a lo b hi] by simp
  have pair: "parse_range (PStr (a @ ''-'' @ b)) = Inr (lo, hi)"
    if "CHR ''-'' \<notin> set a" "CHR ''-'' \<notin> set b" "py_int a = Inr lo" "py_int b = Inr hi"
    using that parse_range_pair [of a lo b hi] by simp
  have fails: "(\<exists>e. parse_range (PStr s) = Inl e) \<longleftrightarrow>
      py_int (str_split CHR ''-'' s ! 0) = Inl ValueError \<or>
      (1 < length (str_split CHR ''-'' s) \<and> py_int (str_split CHR ''-'' s ! 1) = Inl ValueError)"
    using parse_range_str_fails [of s] by (simp add: Let_def)
  have other: "v \<in> {PNone, PFloat f, PList xs, PDict kvs} \<longrightarrow> parse_range v = Inl AttributeError"
    by (auto simp: parse_range_other)
  show ?thesis
    using concrete ints more pair fails other parse_range_single [of a lo]
      parse_range_str_error [of s e]
    by blast
qed

theorem parse_range_reads_first_two_fields_witness:
  "parse_range (PStr ''200-300-400'') = Inr (200, 300) \<and>
   parse_range (PStr ''7'') = Inr (7, 8) \<and>
   (\<exists>e. parse_range (PStr ''20x-300'') = Inl e) \<and>
   parse_range (PFloat (Finite 200)) = Inl AttributeError"
proof -
  have a: "CHR ''-'' \<notin> set ''200''" "CHR ''-'' \<notin> set ''300''" "CHR ''-'' \<notin> set ''7''" by simp_all
  have i: "py_int ''200'' = Inr 200" "py_int ''300'' = Inr 300" "py_int ''7'' = Inr 7"
    "py_int ''20x'' = Inl ValueError"
    by (simp_all add: py_int_defs)
  have s: "str_split CHR ''-'' ''20x-300'' ! 0 = ''20x''" by simp
  show ?thesis
    using parse_range_reads_first_two_fields
      [of _ "''200''" 200 "''300''" 300 "''400''" "''20x-300''" _ _ "PFloat (Finite 200)" "Finite 200"]
      parse_range_reads_first_two_fields [of _ "''7''" 7]
      a i s
    by simp
qed

text \<open>
  Claim C7 as stated fails: "200-300-400" is neither a number nor a "low-high" string,
  and yet it is accepted, its third field ignored.
\<close>

theorem parse_range_trailing_fields_counterexample:
  "parse_range (PStr ''200-300-400'') = Inr (200, 300)"
  by (simp add: parse_range_def and_then_def py_int_defs)


section \<open>Construction\<close>

lemma parse_incident_status_cases:
  "parse_incident_status incident_map dflt cfg =
     (if hashable (configuration_get cfg ''incident'' PNone)
      then Inr (case cfg ''incident'' of
                  Some (PStr s) \<Rightarrow> (case incident_map s of None \<Rightarrow> dflt | Some st \<Rightarrow> st)
                | _ \<Rightarrow> dflt)
      else Inl TypeError)"
  by (auto simp: parse_incident_status_def configuration_get_def Let_def
      split: option.splits pyval.splits)

lemma init_Inr:
  assumes "init incident_map dflt knd cfg cl = Inr (e, evs)"
  shows "kind e = knd \<and>
         parse_incident_status incident_map dflt cfg = Inr (incident_status e)"
  using assms
  by (auto simp: init_def and_then_def Let_def split: sum.splits if_splits prod.splits)

lemma init_error:
  "init incident_map dflt knd cfg cl = Inl err \<Longrightarrow> err = TypeError"
  by (auto simp: init_def and_then_def Let_def parse_incident_status_cases
      split: sum.splits if_splits prod.splits)

text \<open>
  Claim C10. When the configuration names a component, \<open>__init__\<close> asks the client
  once for its name and status, and leaves \<open>component_status\<close> and
  \<open>previous_component_status\<close> both at the status answered, \<open>current_fails\<close> at 0,
  \<open>trigger_update\<close> true, \<open>message\<close> empty and no incident;
  \<open>independent\<close> is false unless the configuration sets \<open>is_independent\<close>. The only
  way the constructor of the base class fails is an incident label that cannot be hashed.
\<close>

theorem init_bound_state:
  assumes "cfg ''component_id'' = Some cid" and "cid \<noteq> PNone"
    and "hashable (configuration_get cfg ''incident'' PNone)"
  shows "\<exists>e b. init incident_map dflt knd cfg cl = Inr (e, [Get_component_name_and_status cid]) \<and>
           binding e = Some b \<and>
           component_id b = cid \<and>
           component_status b = snd (get_component_name_and_status cl cid) \<and>
           previous_component_status b = snd (get_component_name_and_status cl cid) \<and>
           current_fails b = 0 \<and>
           trigger_update b = True \<and>
           message b = [] \<and>
           incident_id b = None \<and>
           (cfg ''is_independent'' = None \<longrightarrow> independent e = PBool False)"
  using assms
  by (simp add: init_def and_then_def parse_incident_status_cases configuration_get_def
      Let_def split: prod.splits)

theorem init_bound_state_witness:
  "\<exists>e b. init example_incident_map PARTIAL_OUTAGE (Latency (PInt 1))
            [''component_id'' \<mapsto> PInt 3] example_client
          = Inr (e, [Get_component_name_and_status (PInt 3)]) \<and>
         binding e = Some b \<and> component_id b = PInt 3 \<and>
         component_status b = OPERATIONAL \<and> previous_component_status b = OPERATIONAL \<and>
         current_fails b = 0 \<and> trigger_update b = True \<and> message b = [] \<and>
         incident_id b = None \<and> independent e = PBool False"
  using init_bound_state [of "[''component_id'' \<mapsto> PInt 3]" "PInt 3"
      example_incident_map PARTIAL_OUTAGE "Latency (PInt 1)" example_client]
  by (simp add: configuration_get_def example_client_def)

section \<open>Classifying by status code\<close>

lemma HttpStatus_init_Inr:
  assumes "HttpStatus_init incident_map cfg cl = Inr (e, evs)"
  shows "\<exists>r rng. cfg ''status_range'' = Some r \<and> parse_range r = Inr rng \<and>
           kind e = HttpStatus rng \<and>
           parse_incident_status incident_map PARTIAL_OUTAGE cfg = Inr (incident_status e)"
  using assms
  by (auto simp: HttpStatus_init_def configuration_item_def and_then_def
      dest: init_Inr split: option.splits sum.splits)

lemma resolved_incident_status:
  assumes "parse_incident_status incident_map dflt cfg = Inr st"
  shows "st = dflt \<or> st \<in> ran incident_map"
    and "cfg ''incident'' = Some (PStr label) \<Longrightarrow> incident_map label = Some st' \<Longrightarrow> st = st'"
    and "cfg ''incident'' = None \<Longrightarrow> st = dflt"
  using assms
  by (auto simp: parse_incident_status_cases ran_def split: if_splits option.splits pyval.splits)

text \<open>
  Claim C8. Take an \<open>HttpStatus\<close> expectation as its constructor builds it, with the
  range \<open>(lower, upper)\<close> parsed from the configuration, and an incident table that
  holds no \<open>OPERATIONAL\<close> entry. For a response with status code \<open>c\<close>,
  \<open>get_status\<close> answers \<open>OPERATIONAL\<close> if and only if \<open>lower \<le> c < upper\<close>, and
  otherwise the expectation's \<open>incident_status\<close>: the status of the configured incident
  label, the default \<open>PARTIAL_OUTAGE\<close> only when no label is configured. With the range
  "200-300", the codes 200 and 299 are \<open>OPERATIONAL\<close> and 300 is the incident status.
\<close>

theorem HttpStatus_get_status_in_range:
  assumes "HttpStatus_init incident_map cfg cl = Inr (e, evs)"
    and "cfg ''status_range'' = Some r"
    and "parse_range r = Inr (lower, upper)"
    and "OPERATIONAL \<notin> ran incident_map"
  shows "(get_status json_loads e resp = Inr OPERATIONAL \<longleftrightarrow>
            lower \<le> status_code resp \<and> status_code resp < upper) \<and>
         (\<not> (lower \<le> status_code resp \<and> status_code resp < upper) \<longrightarrow>
            get_status json_loads e resp = Inr (incident_status e)) \<and>
         (cfg ''incident'' = Some (PStr label) \<and> incident_map label = Some st \<longrightarrow>
            incident_status e = st) \<and>
         (cfg ''incident'' = None \<longrightarrow> incident_status e = PARTIAL_OUTAGE) \<and>
         (r = PStr ''200-300'' \<longrightarrow>
            get_status json_loads e (resp\<lparr>status_code := 200\<rparr>) = Inr OPERATIONAL \<and>
            get_status json_loads e (resp\<lparr>status_code := 299\<rparr>) = Inr OPERATIONAL \<and>
            get_status json_loads e (resp\<lparr>status_code := 300\<rparr>) = Inr (incident_status e))"
proof -
  from HttpStatus_init_Inr [OF assms(1)] assms(2,3)
  have k: "kind e = HttpStatus (lower, upper)"
    and p: "parse_incident_status incident_map PARTIAL_OUTAGE cfg = Inr (incident_status e)"
    by auto
  from resolved_incident_status(1) [OF p] assms(4)
  have ne: "incident_status e \<noteq> OPERATIONAL" by auto
  have g: "get_status json_loads e x =
      Inr (if lower \<le> status_code x \<and> status_code x < upper then OPERATIONAL
           else incident_status e)" for x
    by (simp add: get_status_def k HttpStatus_get_status_def)
  have b: "lower = 200 \<and> upper = 300" if "r = PStr ''200-300''"
    using that assms(3) by (simp add: parse_range_def and_then_def py_int_defs)
  show ?thesis
    using g ne b resolved_incident_status(2,3) [OF p] by auto
qed

theorem HttpStatus_get_status_in_range_witness:
  "\<exists>e evs. HttpStatus_init example_incident_map
       [''status_range'' \<mapsto> PStr ''200-300'', ''incident'' \<mapsto> PStr ''MAJOR''] example_client
       = Inr (e, evs) \<and>
     incident_status e = MAJOR_OUTAGE \<and>
     get_status (\<lambda>_. Inl JSONDecodeError) e
       \<lparr>status_code = 200, elapsed_total_seconds = Finite 0, resp_text = []\<rparr> = Inr OPERATIONAL \<and>
     get_status (\<lambda>_. Inl JSONDecodeError) e
       \<lparr>status_code = 299, elapsed_total_seconds = Finite 0, resp_text = []\<rparr> = Inr OPERATIONAL \<and>
     get_status (\<lambda>_. Inl JSONDecodeError) e
       \<lparr>status_code = 300, elapsed_total_seconds = Finite 0, resp_text = []\<rparr> = Inr MAJOR_OUTAGE \<and>
     get_status (\<lambda>_. Inl JSONDecodeError) e
       \<lparr>status_code = 404, elapsed_total_seconds = Finite 0, resp_text = []\<rparr> = Inr MAJOR_OUTAGE"
proof -
  let ?cfg = "[''status_range'' \<mapsto> PStr ''200-300'', ''incident'' \<mapsto> PStr ''MAJOR'']"
  let ?r = "\<lparr>status_code = 404, elapsed_total_seconds = Finite 0, resp_text = []\<rparr>"
  have pr: "parse_range (PStr ''200-300'') = Inr (200, 300)"
    by (simp add: parse_range_def and_then_def py_int_defs)
  obtain e evs where i: "HttpStatus_init example_incident_map ?cfg example_client = Inr (e, evs)"
    by (simp add: HttpStatus_init_def configuration_item_def and_then_def pr init_def
        parse_incident_status_cases configuration_get_def)
  have m: "OPERATIONAL \<notin> ran example_incident_map"
    by (simp add: example_incident_map_def)
  have l: "example_incident_map ''MAJOR'' = Some MAJOR_OUTAGE"
    by (simp add: example_incident_map_def)
  have c: "?cfg ''status_range'' = Some (PStr ''200-300'')" "?cfg ''incident'' = Some (PStr ''MAJOR'')"
    by simp_all
  show ?thesis
    using HttpStatus_get_status_in_range [OF i c(1) pr m, of "\<lambda>_. Inl JSONDecodeError" ?r "''MAJOR''" MAJOR_OUTAGE]
      i c(2) l
    by (intro exI [of _ e] exI [of _ evs]) simp
qed

section \<open>Creating an expectation from its configuration\<close>

lemma configuration_item_error:
  "configuration_item cfg k = Inl err \<Longrightarrow> err = KeyError k"
  by (auto simp: configuration_item_def split: option.splits)

lemma parse_range_error:
  assumes "parse_range v = Inl err"
  shows "err = ValueError \<or> err = AttributeError"
proof (cases v)
  case (PStr s)
  then show ?thesis using assms parse_range_str_error [of s err] by simp
qed (use assms in \<open>auto simp: parse_range_def\<close>)

lemma HttpStatus_init_error:
  "HttpStatus_init incident_map cfg cl = Inl err \<Longrightarrow>
     err \<in> {KeyError ''status_range'', ValueError, AttributeError, TypeError}"
  by (auto simp: HttpStatus_init_def and_then_def
      dest: configuration_item_error parse_range_error init_error split: sum.splits)

lemma Latency_init_error:
  "Latency_init incident_map cfg cl = Inl err \<Longrightarrow> err \<in> {KeyError ''threshold'', TypeError}"
  by (auto simp: Latency_init_def and_then_def
      dest: configuration_item_error init_error split: sum.splits)

lemma Regex_init_error:
  "Regex_init incident_map re_compile cfg cl = Inl err \<Longrightarrow>
     err \<in> {KeyError ''regex'', TypeError} \<or> (\<exists>r. re_compile r = Inl err)"
  by (auto simp: Regex_init_def and_then_def
      dest: configuration_item_error init_error split: sum.splits)

lemma JsonFieldValueCheck_init_error:
  "JsonFieldValueCheck_init incident_map cfg cl = Inl err \<Longrightarrow>
     err \<in> {KeyError ''field'', KeyError ''value'', AttributeError, TypeError}"
  by (auto simp: JsonFieldValueCheck_init_def and_then_def
      dest: configuration_item_error init_error split: sum.splits pyval.splits)

lemma create_known:
  "cfg ''type'' = Some (PStr ''HTTP_STATUS'') \<Longrightarrow>
     create incident_map re_compile cfg cl = HttpStatus_init incident_map cfg cl"
  "cfg ''type'' = Some (PStr ''LATENCY'') \<Longrightarrow>
     create incident_map re_compile cfg cl = Latency_init incident_map cfg cl"
  "cfg ''type'' = Some (PStr ''REGEX'') \<Longrightarrow>
     create incident_map re_compile cfg cl = Regex_init incident_map re_compile cfg cl"
  "cfg ''type'' = Some (PStr ''JSON_CHECK'') \<Longrightarrow>
     create incident_map re_compile cfg cl = JsonFieldValueCheck_init incident_map cfg cl"
  by (simp_all add: create_def configuration_item_def and_then_def expectations_def)

lemma create_unknown:
  assumes "cfg ''type'' = Some ty" "hashable ty" "ty \<notin> known_types"
  shows "create incident_map re_compile cfg cl =
           Inl (ConfigurationValidationError [Txt ''Invalid type: '', Val ty])"
  using assms
  by (cases ty)
    (auto simp: create_def configuration_item_def and_then_def expectations_def known_types_def)

lemma create_no_type:
  "cfg ''type'' = None \<Longrightarrow> create incident_map re_compile cfg cl = Inl (KeyError ''type'')"
  by (simp add: create_def configuration_item_def and_then_def)

lemma create_unhashable:
  "cfg ''type'' = Some ty \<Longrightarrow> \<not> hashable ty \<Longrightarrow>
     create incident_map re_compile cfg cl = Inl TypeError"
  by (simp add: create_def configuration_item_def and_then_def)

lemma create_error:
  assumes "create incident_map re_compile cfg cl = Inl err"
  shows "(err = ConfigurationValidationError [Txt ''Invalid type: '', Val (the (cfg ''type''))] \<and>
            cfg ''type'' \<noteq> None \<and> hashable (the (cfg ''type'')) \<and> the (cfg ''type'') \<notin> known_types) \<or>
         err \<in> {TypeError, ValueError, AttributeError} \<or> (\<exists>k. err = KeyError k) \<or>
         (\<exists>r. re_compile r = Inl err)"
proof (cases "cfg ''type''")
  case None
  then show ?thesis using assms by (auto simp: create_no_type)
next
  case (Some ty)
  show ?thesis
  proof (cases "hashable ty")
    case False
    then show ?thesis using assms Some by (auto simp: create_unhashable)
  next
    case True
    show ?thesis
    proof (cases "ty \<in> known_types")
      case False
      then show ?thesis using assms Some True by (auto simp: create_unknown)
    next
      case k: True
      then consider "ty = PStr ''HTTP_STATUS''" | "ty = PStr ''LATENCY''" | "ty = PStr ''REGEX''"
        | "ty = PStr ''JSON_CHECK''"
        by (auto simp: known_types_def)
      then show ?thesis
      proof cases
        case 1
        then show ?thesis
          using assms Some HttpStatus_init_error [of incident_map cfg cl err]
          by (auto simp: create_known)
      next
        case 2
        then show ?thesis
          using assms Some Latency_init_error [of incident_map cfg cl err]
          by (auto simp: create_known)
      next
        case 3
        then show ?thesis
          using assms Some Regex_init_error [of incident_map re_compile cfg cl err]
          by (auto simp: create_known)
      next
        case 4
        then show ?thesis
          using assms Some JsonFieldValueCheck_init_error [of incident_map cfg cl err]
          by (auto simp: create_known)
      qed
    qed
  qed
qed

text \<open>
  Claim C9, as the code has it. When the type of a configuration is a value that can be
  hashed (a string, a number, a truth value or \<open>None\<close>) and is none of the four known
  names, \<open>create\<close> raises \<open>ConfigurationValidationError\<close> with the message
  "Invalid type: " followed by that value, and it raises this error in no other case.
  A type that is a list or a dictionary raises \<open>TypeError\<close>, and a configuration
  without a type raises \<open>KeyError\<close>. Construction as a whole fails only with
  \<open>ConfigurationValidationError\<close>, \<open>KeyError\<close>, \<open>TypeError\<close>, \<open>ValueError\<close>,
  \<open>AttributeError\<close>, or with what \<open>re.compile\<close> raises.
\<close>

theorem create_rejects_unknown_type:
  "(cfg ''type'' = Some ty \<and> hashable ty \<and> ty \<notin> known_types \<longrightarrow>
      create incident_map re_compile cfg cl =
        Inl (ConfigurationValidationError [Txt ''Invalid type: '', Val ty])) \<and>
   (cfg ''type'' = Some ty \<and> \<not> hashable ty \<longrightarrow>
      create incident_map re_compile cfg cl = Inl TypeError) \<and>
   (cfg ''type'' = None \<longrightarrow> create incident_map re_compile cfg cl = Inl (KeyError ''type'')) \<and>
   (create incident_map re_compile cfg cl = Inl (ConfigurationValidationError m) \<longrightarrow>
      (\<exists>ty'. cfg ''type'' = Some ty' \<and> hashable ty' \<and> ty' \<notin> known_types \<and>
             m = [Txt ''Invalid type: '', Val ty']) \<or>
      (\<exists>r. re_compile r = Inl (ConfigurationValidationError m))) \<and>
   (create incident_map re_compile cfg cl = Inl err \<longrightarrow>
      (\<exists>m. err = ConfigurationValidationError m) \<or> (\<exists>k. err = KeyError k) \<or>
      err \<in> {TypeError, ValueError, AttributeError} \<or> (\<exists>r. re_compile r = Inl err))"
  using create_unknown [of cfg ty incident_map re_compile cl]
    create_unhashable [of cfg ty incident_map re_compile cl]
    create_no_type [of cfg incident_map re_compile cl]
    create_error [of incident_map re_compile cfg cl err]
    create_error [of incident_map re_compile cfg cl "ConfigurationValidationError m"]
  by auto

theorem create_rejects_unknown_type_witness:
  "create example_incident_map (\<lambda>_. Inl ReError) [''type'' \<mapsto> PStr ''PING''] example_client =
     Inl (ConfigurationValidationError [Txt ''Invalid type: '', Val (PStr ''PING'')]) \<and>
   create example_incident_map (\<lambda>_. Inl ReError) [''type'' \<mapsto> PInt 5] example_client =
     Inl (ConfigurationValidationError [Txt ''Invalid type: '', Val (PInt 5)]) \<and>
   create example_incident_map (\<lambda>_. Inl ReError) [''type'' \<mapsto> PDict []] example_client =
     Inl TypeError \<and>
   create example_incident_map (\<lambda>_. Inl ReError) Map.empty example_client =
     Inl (KeyError ''type'')"
  using create_rejects_unknown_type [of "[''type'' \<mapsto> PStr ''PING'']" "PStr ''PING''"]
    create_rejects_unknown_type [of "[''type'' \<mapsto> PInt 5]" "PInt 5"]
    create_rejects_unknown_type [of "[''type'' \<mapsto> PDict []]" "PDict []"]
    create_rejects_unknown_type [of Map.empty]
  by (simp add: known_types_def)

text \<open>
  Claim C9 as stated fails: a type given as a list is none of the four names, and
  \<open>create\<close> raises \<open>TypeError\<close> for it; and a known type whose required field is
  missing raises \<open>KeyError\<close>, which is no configuration-validation error either.
\<close>

theorem create_other_failures_counterexample:
  "create example_incident_map (\<lambda>_. Inl ReError)
     [''type'' \<mapsto> PList [PStr ''HTTP_STATUS'']] example_client = Inl TypeError \<and>
   create example_incident_map (\<lambda>_. Inl ReError)
     [''type'' \<mapsto> PStr ''HTTP_STATUS''] example_client = Inl (KeyError ''status_range'')"
  by (simp add: create_def configuration_item_def and_then_def expectations_def
      HttpStatus_init_def)

section \<open>Damping of failures\<close>

lemma int_le_py_PInt: "int_le_py i (PInt t) = Inr (i \<le> t)"
  by (simp add: int_le_py_def)

lemma if_trigger_update_PInt:
  assumes "binding e = Some b"
    and "effective_allowed_fails b dflt = PInt t"
  shows "if_trigger_update dflt lg e =
     Inr (e\<lparr>binding := Some (b\<lparr>current_fails := (if damped b t then current_fails b + 1 else 0),
                                  trigger_update := \<not> damped b t\<rparr>)\<rparr>,
          if lg \<and> component_status b \<noteq> OPERATIONAL
          then [Log_warning [Txt ''Failure #'', Num (current_fails b + 1),
                             Txt '' with threshold set to '', Val (PInt t)]]
          else [])"
  using assms
  by (simp add: if_trigger_update_def Let_def and_then_def int_le_py_PInt damped_def)

lemma get_status_same_kind:
  "kind e' = kind e \<Longrightarrow> incident_status e' = incident_status e \<Longrightarrow>
     get_status json_loads e' resp = get_status json_loads e resp"
  by (simp add: get_status_def split: evaluator.splits)

lemma push_status_keeps:
  assumes "push_status cl lg e = (e', evs)" and "binding e = Some b"
  shows "\<exists>b'. binding e' = Some b' \<and>
           b' = b\<lparr>previous_component_status := component_status b,
                  trigger_update := trigger_update b \<and>
                    previous_component_status b \<noteq> component_status b\<rparr> \<and>
           kind e' = kind e \<and> incident_status e' = incident_status e \<and>
           independent e' = independent e"
  using assms
  by (auto simp: push_status_def Let_def split: if_splits)

lemma push_incident_keeps:
  assumes "push_incident cl pub name ttl whs lg e = Inr (e', evs)" and "binding e = Some b"
  shows "\<exists>b'. binding e' = Some b' \<and> (\<exists>i. b' = b\<lparr>incident_id := i\<rparr>) \<and>
           kind e' = kind e \<and> incident_status e' = incident_status e \<and>
           independent e' = independent e"
proof -
  have triv: "b = b\<lparr>incident_id := incident_id b\<rparr>" by simp
  show ?thesis
    using assms
    apply (auto simp: push_incident_def Let_def and_then_def split: if_splits sum.splits)
    using triv by blast+
qed

lemma push_incident_idle:
  "binding e = Some b \<Longrightarrow> \<not> trigger_update b \<Longrightarrow>
     push_incident cl pub name ttl whs lg e = Inr (e, [])"
  by (simp add: push_incident_def)


lemma effective_allowed_fails_same:
  "allowed_fails b' = allowed_fails b \<Longrightarrow>
     effective_allowed_fails b' d = effective_allowed_fails b d"
  by (simp add: effective_allowed_fails_def)

lemma evaluate_and_damp_PInt:
  assumes "binding e = Some b"
    and "get_status json_loads e (cy_probe inp) = Inr s"
    and "effective_allowed_fails b (cy_allowed_fails inp) = PInt t"
  shows "\<exists>evs. evaluate_and_damp json_loads gm inp e =
     Inr (e\<lparr>binding := Some (b\<lparr>previous_component_status := component_status b,
                                  component_status := s,
                                  message := gm (cy_probe inp),
                                  current_fails :=
                                    (if s \<noteq> OPERATIONAL \<and> current_fails b + 1 \<le> t
                                     then current_fails b + 1 else 0),
                                  trigger_update :=
                                    \<not> (s \<noteq> OPERATIONAL \<and> current_fails b + 1 \<le> t)\<rparr>)\<rparr>, evs)"
proof -
  let ?b1 = "b\<lparr>previous_component_status := component_status b, component_status := s,
               message := gm (cy_probe inp)\<rparr>"
  let ?e1 = "update_component_status gm s (cy_probe inp) e"
  have u: "?e1 = e\<lparr>binding := Some ?b1\<rparr>" "binding ?e1 = Some ?b1"
    using assms(1) by (simp_all add: update_component_status_def)
  have t: "effective_allowed_fails ?b1 (cy_allowed_fails inp) = PInt t"
    using assms(3) effective_allowed_fails_same [of ?b1 b] by simp
  show ?thesis
    using if_trigger_update_PInt [OF u(2) t, of "cy_logger inp"] assms(2) u(1)
    by (simp add: evaluate_and_damp_def and_then_def damped_def)
qed

lemma cycle_damped:
  assumes "binding e = Some b"
    and "get_status json_loads e (cy_probe inp) = Inr s"
    and "effective_allowed_fails b (cy_allowed_fails inp) = PInt t"
    and "s \<noteq> OPERATIONAL" and "current_fails b + 1 \<le> t"
  shows "\<exists>evs. cycle json_loads gm inp e =
     Inr (e\<lparr>binding := Some (b\<lparr>previous_component_status := s,
                                  component_status := s,
                                  message := gm (cy_probe inp),
                                  current_fails := current_fails b + 1,
                                  trigger_update := False\<rparr>)\<rparr>, evs)"
proof -
  let ?b2 = "b\<lparr>previous_component_status := component_status b, component_status := s,
               message := gm (cy_probe inp), current_fails := current_fails b + 1,
               trigger_update := False\<rparr>"
  obtain l2 where d: "evaluate_and_damp json_loads gm inp e = Inr (e\<lparr>binding := Some ?b2\<rparr>, l2)"
    using evaluate_and_damp_PInt [OF assms(1-3), of gm] assms(4,5) by auto
  obtain e3 l3 where p: "push_status (cy_client inp) (cy_logger inp) (e\<lparr>binding := Some ?b2\<rparr>) = (e3, l3)"
    by fastforce
  have b3: "e3 = e\<lparr>binding := Some (?b2\<lparr>previous_component_status := s\<rparr>)\<rparr>"
    using p by (auto simp: push_status_def Let_def split: if_splits)
  have i: "push_incident (cy_client inp) (cy_public_incidents inp) (cy_endpoint_name inp)
             (cy_incident_title inp) (cy_webhooks inp) (cy_logger inp) e3 = Inr (e3, [])"
    using b3 by (simp add: push_incident_def)
  show ?thesis
    using d p i b3 by (simp add: cycle_def and_then_def)
qed


lemma three_failures:
  assumes b: "binding e = Some b"
    and t1: "effective_allowed_fails b (cy_allowed_fails i1) = PInt 2"
    and t2: "effective_allowed_fails b (cy_allowed_fails i2) = PInt 2"
    and t3: "effective_allowed_fails b (cy_allowed_fails i3) = PInt 2"
    and c: "current_fails b = 0"
    and g1: "get_status json_loads e (cy_probe i1) = Inr s1" and n1: "s1 \<noteq> OPERATIONAL"
    and g2: "get_status json_loads e (cy_probe i2) = Inr s2" and n2: "s2 \<noteq> OPERATIONAL"
    and g3: "get_status json_loads e (cy_probe i3) = Inr s3" and n3: "s3 \<noteq> OPERATIONAL"
  shows "\<exists>d1 l1 e1 k1 d2 l2 e2 k2 d3 l3.
           evaluate_and_damp json_loads gm i1 e = Inr (d1, l1) \<and>
           map_option trigger_update (binding d1) = Some False \<and>
           cycle json_loads gm i1 e = Inr (e1, k1) \<and>
           evaluate_and_damp json_loads gm i2 e1 = Inr (d2, l2) \<and>
           map_option trigger_update (binding d2) = Some False \<and>
           cycle json_loads gm i2 e1 = Inr (e2, k2) \<and>
           evaluate_and_damp json_loads gm i3 e2 = Inr (d3, l3) \<and>
           map_option trigger_update (binding d3) = Some True \<and>
           map_option current_fails (binding d3) = Some 0"
proof -
  let ?b1 = "b\<lparr>previous_component_status := s1, component_status := s1,
               message := gm (cy_probe i1), current_fails := current_fails b + 1,
               trigger_update := False\<rparr>"
  let ?e1 = "e\<lparr>binding := Some ?b1\<rparr>"
  let ?b2 = "?b1\<lparr>previous_component_status := s2, component_status := s2,
               message := gm (cy_probe i2), current_fails := current_fails ?b1 + 1,
               trigger_update := False\<rparr>"
  let ?e2 = "?e1\<lparr>binding := Some ?b2\<rparr>"
  have t2': "effective_allowed_fails ?b1 (cy_allowed_fails i2) = PInt 2"
    using t2 effective_allowed_fails_same [of ?b1 b] by simp
  have t3': "effective_allowed_fails ?b2 (cy_allowed_fails i3) = PInt 2"
    using t3 effective_allowed_fails_same [of ?b2 b] by simp
  obtain d1 l1 where d1: "evaluate_and_damp json_loads gm i1 e = Inr (d1, l1)"
      "map_option trigger_update (binding d1) = Some False"
    using evaluate_and_damp_PInt [OF b g1 t1, of gm] c n1 by auto
  obtain k1 where c1: "cycle json_loads gm i1 e = Inr (?e1, k1)"
    using cycle_damped [OF b g1 t1 n1, of gm] c by auto
  have b1: "binding ?e1 = Some ?b1" by simp
  have g2': "get_status json_loads ?e1 (cy_probe i2) = Inr s2"
    using g2 get_status_same_kind [of ?e1 e] by simp
  obtain d2 l2 where d2: "evaluate_and_damp json_loads gm i2 ?e1 = Inr (d2, l2)"
      "map_option trigger_update (binding d2) = Some False"
    using evaluate_and_damp_PInt [OF b1 g2' t2', of gm] c n2 by auto
  obtain k2 where c2: "cycle json_loads gm i2 ?e1 = Inr (?e2, k2)"
    using cycle_damped [OF b1 g2' t2' n2, of gm] c by auto
  have b2: "binding ?e2 = Some ?b2" by simp
  have g3': "get_status json_loads ?e2 (cy_probe i3) = Inr s3"
    using g3 get_status_same_kind [of ?e2 e] by simp
  obtain d3 l3 where d3: "evaluate_and_damp json_loads gm i3 ?e2 = Inr (d3, l3)"
      "map_option trigger_update (binding d3) = Some True"
      "map_option current_fails (binding d3) = Some 0"
    using evaluate_and_damp_PInt [OF b2 g3' t3', of gm] c n3 by auto
  show ?thesis
    using d1 c1 d2 c2 d3 by blast
qed

lemma effective_allowed_fails_cases:
  "allowed_fails b = PInt t \<Longrightarrow> effective_allowed_fails b d = PInt t"
  "allowed_fails b = PNone \<Longrightarrow> effective_allowed_fails b d = d"
  by (simp_all add: effective_allowed_fails_def)

text \<open>
  Claim C3. Let \<open>t\<close> be the effective threshold of a bound expectation: its own
  \<open>allowed_fails\<close> when that is set, whatever default the caller passes, and the
  caller's default when it is not set. When the status is not \<open>OPERATIONAL\<close>,
  \<open>if_trigger_update\<close> counts one more failure; if the count is at most \<open>t\<close> it
  stores the count, sets \<open>trigger_update\<close> to false and changes nothing else.
  Otherwise, that is when the status is \<open>OPERATIONAL\<close> or the count exceeds \<open>t\<close>, it
  resets \<open>current_fails\<close> to 0 and sets \<open>trigger_update\<close> to true. With a threshold
  of 2, the expectation's own or else the default of each cycle, and no failure counted
  yet, three cycles in a row that classify as not operational leave \<open>trigger_update\<close>
  false, false and true after the damping step, and \<open>current_fails\<close> at 0 after the
  third.
\<close>

theorem if_trigger_update_damping:
  assumes "binding e = Some b"
    and "allowed_fails b = PInt t \<or> (allowed_fails b = PNone \<and> dflt = PInt t)"
  shows "(component_status b \<noteq> OPERATIONAL \<and> current_fails b + 1 \<le> t \<longrightarrow>
            if_trigger_update dflt lg e =
              Inr (e\<lparr>binding := Some (b\<lparr>current_fails := current_fails b + 1,
                                           trigger_update := False\<rparr>)\<rparr>,
                   if lg then [Log_warning [Txt ''Failure #'', Num (current_fails b + 1),
                                            Txt '' with threshold set to '', Val (PInt t)]]
                   else [])) \<and>
         (component_status b \<noteq> OPERATIONAL \<and> t < current_fails b + 1 \<longrightarrow>
            if_trigger_update dflt lg e =
              Inr (e\<lparr>binding := Some (b\<lparr>current_fails := 0, trigger_update := True\<rparr>)\<rparr>,
                   if lg then [Log_warning [Txt ''Failure #'', Num (current_fails b + 1),
                                            Txt '' with threshold set to '', Val (PInt t)]]
                   else [])) \<and>
         (component_status b = OPERATIONAL \<longrightarrow>
            if_trigger_update dflt lg e =
              Inr (e\<lparr>binding := Some (b\<lparr>current_fails := 0, trigger_update := True\<rparr>)\<rparr>, [])) \<and>
         ((allowed_fails b = PInt 2 \<or>
           (allowed_fails b = PNone \<and> cy_allowed_fails i1 = PInt 2 \<and>
            cy_allowed_fails i2 = PInt 2 \<and> cy_allowed_fails i3 = PInt 2)) \<and>
          current_fails b = 0 \<and>
          get_status json_loads e (cy_probe i1) = Inr s1 \<and> s1 \<noteq> OPERATIONAL \<and>
          get_status json_loads e (cy_probe i2) = Inr s2 \<and> s2 \<noteq> OPERATIONAL \<and>
          get_status json_loads e (cy_probe i3) = Inr s3 \<and> s3 \<noteq> OPERATIONAL \<longrightarrow>
          (\<exists>d1 l1 e1 k1 d2 l2 e2 k2 d3 l3.
             evaluate_and_damp json_loads gm i1 e = Inr (d1, l1) \<and>
             map_option trigger_update (binding d1) = Some False \<and>
             cycle json_loads gm i1 e = Inr (e1, k1) \<and>
             evaluate_and_damp json_loads gm i2 e1 = Inr (d2, l2) \<and>
             map_option trigger_update (binding d2) = Some False \<and>
             cycle json_loads gm i2 e1 = Inr (e2, k2) \<and>
             evaluate_and_damp json_loads gm i3 e2 = Inr (d3, l3) \<and>
             map_option trigger_update (binding d3) = Some True \<and>
             map_option current_fails (binding d3) = Some 0))"
proof -
  have eff: "effective_allowed_fails b dflt = PInt t"
    using assms(2) by (auto simp: effective_allowed_fails_cases)
  have step: "if_trigger_update dflt lg e =
     Inr (e\<lparr>binding := Some (b\<lparr>current_fails := (if damped b t then current_fails b + 1 else 0),
                                  trigger_update := \<not> damped b t\<rparr>)\<rparr>,
          if lg \<and> component_status b \<noteq> OPERATIONAL
          then [Log_warning [Txt ''Failure #'', Num (current_fails b + 1),
                             Txt '' with threshold set to '', Val (PInt t)]]
          else [])"
    by (rule if_trigger_update_PInt [OF assms(1) eff])
  have single: "(component_status b \<noteq> OPERATIONAL \<and> current_fails b + 1 \<le> t \<longrightarrow>
            if_trigger_update dflt lg e =
              Inr (e\<lparr>binding := Some (b\<lparr>current_fails := current_fails b + 1,
                                           trigger_update := False\<rparr>)\<rparr>,
                   if lg then [Log_warning [Txt ''Failure #'', Num (current_fails b + 1),
                                            Txt '' with threshold set to '', Val (PInt t)]]
                   else [])) \<and>
         (component_status b \<noteq> OPERATIONAL \<and> t < current_fails b + 1 \<longrightarrow>
            if_trigger_update dflt lg e =
              Inr (e\<lparr>binding := Some (b\<lparr>current_fails := 0, trigger_update := True\<rparr>)\<rparr>,
                   if lg then [Log_warning [Txt ''Failure #'', Num (current_fails b + 1),
                                            Txt '' with threshold set to '', Val (PInt t)]]
                   else [])) \<and>
         (component_status b = OPERATIONAL \<longrightarrow>
            if_trigger_update dflt lg e =
              Inr (e\<lparr>binding := Some (b\<lparr>current_fails := 0, trigger_update := True\<rparr>)\<rparr>, []))"
    using step by (simp add: damped_def)
  have three: "\<exists>d1 l1 e1 k1 d2 l2 e2 k2 d3 l3.
             evaluate_and_damp json_loads gm i1 e = Inr (d1, l1) \<and>
             map_option trigger_update (binding d1) = Some False \<and>
             cycle json_loads gm i1 e = Inr (e1, k1) \<and>
             evaluate_and_damp json_loads gm i2 e1 = Inr (d2, l2) \<and>
             map_option trigger_update (binding d2) = Some False \<and>
             cycle json_loads gm i2 e1 = Inr (e2, k2) \<and>
             evaluate_and_damp json_loads gm i3 e2 = Inr (d3, l3) \<and>
             map_option trigger_update (binding d3) = Some True \<and>
             map_option current_fails (binding d3) = Some 0"
    if th: "allowed_fails b = PInt 2 \<or>
           (allowed_fails b = PNone \<and> cy_allowed_fails i1 = PInt 2 \<and>
            cy_allowed_fails i2 = PInt 2 \<and> cy_allowed_fails i3 = PInt 2)"
      and c: "current_fails b = 0"
      and g: "get_status json_loads e (cy_probe i1) = Inr s1" "s1 \<noteq> OPERATIONAL"
        "get_status json_loads e (cy_probe i2) = Inr s2" "s2 \<noteq> OPERATIONAL"
        "get_status json_loads e (cy_probe i3) = Inr s3" "s3 \<noteq> OPERATIONAL"
  proof -
    have t: "effective_allowed_fails b (cy_allowed_fails i1) = PInt 2"
      "effective_allowed_fails b (cy_allowed_fails i2) = PInt 2"
      "effective_allowed_fails b (cy_allowed_fails i3) = PInt 2"
      using th by (auto simp: effective_allowed_fails_cases)
    show ?thesis
      by (rule three_failures [OF assms(1) t c g])
  qed
  from single three show ?thesis by blast
qed

theorem if_trigger_update_damping_witness:
  "if_trigger_update (PInt 0) False
     (example_expectation\<lparr>binding := Some (example_bound\<lparr>component_status := MAJOR_OUTAGE\<rparr>)\<rparr>) =
     Inr (example_expectation\<lparr>binding :=
            Some (example_bound\<lparr>component_status := MAJOR_OUTAGE, current_fails := 1,
                                  trigger_update := False\<rparr>)\<rparr>, []) \<and>
   if_trigger_update (PInt 0) False
     (example_expectation\<lparr>binding :=
        Some (example_bound\<lparr>component_status := MAJOR_OUTAGE, current_fails := 2\<rparr>)\<rparr>) =
     Inr (example_expectation\<lparr>binding :=
            Some (example_bound\<lparr>component_status := MAJOR_OUTAGE, current_fails := 0,
                                  trigger_update := True\<rparr>)\<rparr>, []) \<and>
   if_trigger_update (PInt 0) False
     (example_expectation\<lparr>binding := Some (example_bound\<lparr>current_fails := 1\<rparr>)\<rparr>) =
     Inr (example_expectation\<lparr>binding :=
            Some (example_bound\<lparr>current_fails := 0, trigger_update := True\<rparr>)\<rparr>, []) \<and>
   if_trigger_update (PInt 1) False
     (example_expectation\<lparr>binding :=
        Some (example_bound\<lparr>component_status := MAJOR_OUTAGE, allowed_fails := PNone\<rparr>)\<rparr>) =
     Inr (example_expectation\<lparr>binding :=
            Some (example_bound\<lparr>component_status := MAJOR_OUTAGE, allowed_fails := PNone,
                                  current_fails := 1, trigger_update := False\<rparr>)\<rparr>, []) \<and>
   if_trigger_update (PInt 0) False
     (example_expectation\<lparr>binding :=
        Some (example_bound\<lparr>component_status := MAJOR_OUTAGE, allowed_fails := PNone\<rparr>)\<rparr>) =
     Inr (example_expectation\<lparr>binding :=
            Some (example_bound\<lparr>component_status := MAJOR_OUTAGE, allowed_fails := PNone,
                                  current_fails := 0, trigger_update := True\<rparr>)\<rparr>, []) \<and>
   (\<exists>d1 l1 e1 k1 d2 l2 e2 k2 d3 l3.
      evaluate_and_damp (\<lambda>_. Inl JSONDecodeError) (\<lambda>_. ''down'') (example_input 500)
        example_expectation = Inr (d1, l1) \<and>
      map_option trigger_update (binding d1) = Some False \<and>
      cycle (\<lambda>_. Inl JSONDecodeError) (\<lambda>_. ''down'') (example_input 500)
        example_expectation = Inr (e1, k1) \<and>
      evaluate_and_damp (\<lambda>_. Inl JSONDecodeError) (\<lambda>_. ''down'') (example_input 503) e1 =
        Inr (d2, l2) \<and>
      map_option trigger_update (binding d2) = Some False \<and>
      cycle (\<lambda>_. Inl JSONDecodeError) (\<lambda>_. ''down'') (example_input 503) e1 = Inr (e2, k2) \<and>
      evaluate_and_damp (\<lambda>_. Inl JSONDecodeError) (\<lambda>_. ''down'') (example_input 404) e2 =
        Inr (d3, l3) \<and>
      map_option trigger_update (binding d3) = Some True \<and>
      map_option current_fails (binding d3) = Some 0) \<and>
   (\<exists>d1 l1 e1 k1 d2 l2 e2 k2 d3 l3.
      evaluate_and_damp (\<lambda>_. Inl JSONDecodeError) (\<lambda>_. ''down'')
        (example_input 500\<lparr>cy_allowed_fails := PInt 2\<rparr>)
        (example_expectation\<lparr>binding := Some (example_bound\<lparr>allowed_fails := PNone\<rparr>)\<rparr>) =
        Inr (d1, l1) \<and>
      map_option trigger_update (binding d1) = Some False \<and>
      cycle (\<lambda>_. Inl JSONDecodeError) (\<lambda>_. ''down'')
        (example_input 500\<lparr>cy_allowed_fails := PInt 2\<rparr>)
        (example_expectation\<lparr>binding := Some (example_bound\<lparr>allowed_fails := PNone\<rparr>)\<rparr>) =
        Inr (e1, k1) \<and>
      evaluate_and_damp (\<lambda>_. Inl JSONDecodeError) (\<lambda>_. ''down'')
        (example_input 503\<lparr>cy_allowed_fails := PInt 2\<rparr>) e1 = Inr (d2, l2) \<and>
      map_option trigger_update (binding d2) = Some False \<and>
      cycle (\<lambda>_. Inl JSONDecodeError) (\<lambda>_. ''down'')
        (example_input 503\<lparr>cy_allowed_fails := PInt 2\<rparr>) e1 = Inr (e2, k2) \<and>
      evaluate_and_damp (\<lambda>_. Inl JSONDecodeError) (\<lambda>_. ''down'')
        (example_input 404\<lparr>cy_allowed_fails := PInt 2\<rparr>) e2 = Inr (d3, l3) \<and>
      map_option trigger_update (binding d3) = Some True \<and>
      map_option current_fails (binding d3) = Some 0)"
proof -
  let ?down = "example_bound\<lparr>component_status := MAJOR_OUTAGE\<rparr>"
  let ?late = "example_bound\<lparr>component_status := MAJOR_OUTAGE, current_fails := 2\<rparr>"
  let ?up = "example_bound\<lparr>current_fails := 1\<rparr>"
  let ?free = "example_bound\<lparr>component_status := MAJOR_OUTAGE, allowed_fails := PNone\<rparr>"
  let ?unset = "example_bound\<lparr>allowed_fails := PNone\<rparr>"
  let ?in = "\<lambda>c. example_input c\<lparr>cy_allowed_fails := PInt 2\<rparr>"
  have own: "allowed_fails ?down = PInt 2 \<or> (allowed_fails ?down = PNone \<and> PInt 0 = PInt 2)"
    "allowed_fails ?late = PInt 2 \<or> (allowed_fails ?late = PNone \<and> PInt 0 = PInt 2)"
    "allowed_fails ?up = PInt 2 \<or> (allowed_fails ?up = PNone \<and> PInt 0 = PInt 2)"
    "allowed_fails example_bound = PInt 2 \<or>
       (allowed_fails example_bound = PNone \<and> PInt 0 = PInt 2)"
    by (simp_all add: example_bound_def)
  have dflt: "allowed_fails ?free = PInt 1 \<or> (allowed_fails ?free = PNone \<and> PInt 1 = PInt 1)"
    "allowed_fails ?free = PInt 0 \<or> (allowed_fails ?free = PNone \<and> PInt 0 = PInt 0)"
    "allowed_fails ?unset = PInt 2 \<or> (allowed_fails ?unset = PNone \<and> PInt 2 = PInt 2)"
    by simp_all
  have g: "get_status (\<lambda>_. Inl JSONDecodeError) (example_expectation\<lparr>binding := x\<rparr>)
             (cy_probe (example_input c)) =
             Inr (if 200 \<le> c \<and> c < 300 then OPERATIONAL else PARTIAL_OUTAGE)"
    "get_status (\<lambda>_. Inl JSONDecodeError) example_expectation (cy_probe (example_input c)) =
             Inr (if 200 \<le> c \<and> c < 300 then OPERATIONAL else PARTIAL_OUTAGE)" for c x
    by (simp_all add: get_status_def example_expectation_def example_input_def
        HttpStatus_get_status_def)
  have f: "component_status example_bound = OPERATIONAL" "current_fails example_bound = 0"
    "allowed_fails example_bound = PInt 2" "binding example_expectation = Some example_bound"
    by (simp_all add: example_bound_def example_expectation_def)
  have first: "if_trigger_update (PInt 0) False (example_expectation\<lparr>binding := Some ?down\<rparr>) =
     Inr (example_expectation\<lparr>binding :=
            Some (example_bound\<lparr>component_status := MAJOR_OUTAGE, current_fails := 1,
                                  trigger_update := False\<rparr>)\<rparr>, [])"
    using if_trigger_update_damping
        [of "example_expectation\<lparr>binding := Some ?down\<rparr>" ?down 2 "PInt 0" False,
          OF _ own(1), THEN conjunct1]
      f(2)
    by simp
  have late: "if_trigger_update (PInt 0) False (example_expectation\<lparr>binding := Some ?late\<rparr>) =
     Inr (example_expectation\<lparr>binding :=
            Some (example_bound\<lparr>component_status := MAJOR_OUTAGE, current_fails := 0,
                                  trigger_update := True\<rparr>)\<rparr>, [])"
    using if_trigger_update_damping
        [of "example_expectation\<lparr>binding := Some ?late\<rparr>" ?late 2 "PInt 0" False,
          OF _ own(2), THEN conjunct2, THEN conjunct1]
    by simp
  have up: "if_trigger_update (PInt 0) False (example_expectation\<lparr>binding := Some ?up\<rparr>) =
     Inr (example_expectation\<lparr>binding :=
            Some (example_bound\<lparr>current_fails := 0, trigger_update := True\<rparr>)\<rparr>, [])"
    using if_trigger_update_damping
        [of "example_expectation\<lparr>binding := Some ?up\<rparr>" ?up 2 "PInt 0" False,
          OF _ own(3), THEN conjunct2, THEN conjunct2, THEN conjunct1]
      f(1)
    by simp
  have tolerant: "if_trigger_update (PInt 1) False (example_expectation\<lparr>binding := Some ?free\<rparr>) =
     Inr (example_expectation\<lparr>binding :=
            Some (example_bound\<lparr>component_status := MAJOR_OUTAGE, allowed_fails := PNone,
                                  current_fails := 1, trigger_update := False\<rparr>)\<rparr>, [])"
    using if_trigger_update_damping
        [of "example_expectation\<lparr>binding := Some ?free\<rparr>" ?free 1 "PInt 1" False,
          OF _ dflt(1), THEN conjunct1]
      f(2)
    by simp
  have strict: "if_trigger_update (PInt 0) False (example_expectation\<lparr>binding := Some ?free\<rparr>) =
     Inr (example_expectation\<lparr>binding :=
            Some (example_bound\<lparr>component_status := MAJOR_OUTAGE, allowed_fails := PNone,
                                  current_fails := 0, trigger_update := True\<rparr>)\<rparr>, [])"
    using if_trigger_update_damping
        [of "example_expectation\<lparr>binding := Some ?free\<rparr>" ?free 0 "PInt 0" False,
          OF _ dflt(2), THEN conjunct2, THEN conjunct1]
      f(2)
    by simp
  have pre: "(allowed_fails example_bound = PInt 2 \<or>
       (allowed_fails example_bound = PNone \<and> cy_allowed_fails (example_input 500) = PInt 2 \<and>
        cy_allowed_fails (example_input 503) = PInt 2 \<and>
        cy_allowed_fails (example_input 404) = PInt 2)) \<and>
      current_fails example_bound = 0 \<and>
      get_status (\<lambda>_. Inl JSONDecodeError) example_expectation (cy_probe (example_input 500)) =
        Inr PARTIAL_OUTAGE \<and> PARTIAL_OUTAGE \<noteq> OPERATIONAL \<and>
      get_status (\<lambda>_. Inl JSONDecodeError) example_expectation (cy_probe (example_input 503)) =
        Inr PARTIAL_OUTAGE \<and> PARTIAL_OUTAGE \<noteq> OPERATIONAL \<and>
      get_status (\<lambda>_. Inl JSONDecodeError) example_expectation (cy_probe (example_input 404)) =
        Inr PARTIAL_OUTAGE \<and> PARTIAL_OUTAGE \<noteq> OPERATIONAL"
    by (simp add: g(2) f)
  note scenario = if_trigger_update_damping
        [of example_expectation example_bound 2 "PInt 0" False
          "example_input 500" "example_input 503" "example_input 404"
          "\<lambda>_. Inl JSONDecodeError" PARTIAL_OUTAGE PARTIAL_OUTAGE PARTIAL_OUTAGE
          "\<lambda>_. ''down''", OF f(4) own(4),
          THEN conjunct2, THEN conjunct2, THEN conjunct2, THEN mp, OF pre]
  have pre': "(allowed_fails ?unset = PInt 2 \<or>
       (allowed_fails ?unset = PNone \<and> cy_allowed_fails (?in 500) = PInt 2 \<and>
        cy_allowed_fails (?in 503) = PInt 2 \<and> cy_allowed_fails (?in 404) = PInt 2)) \<and>
      current_fails ?unset = 0 \<and>
      get_status (\<lambda>_. Inl JSONDecodeError) (example_expectation\<lparr>binding := Some ?unset\<rparr>)
        (cy_probe (?in 500)) = Inr PARTIAL_OUTAGE \<and> PARTIAL_OUTAGE \<noteq> OPERATIONAL \<and>
      get_status (\<lambda>_. Inl JSONDecodeError) (example_expectation\<lparr>binding := Some ?unset\<rparr>)
        (cy_probe (?in 503)) = Inr PARTIAL_OUTAGE \<and> PARTIAL_OUTAGE \<noteq> OPERATIONAL \<and>
      get_status (\<lambda>_. Inl JSONDecodeError) (example_expectation\<lparr>binding := Some ?unset\<rparr>)
        (cy_probe (?in 404)) = Inr PARTIAL_OUTAGE \<and> PARTIAL_OUTAGE \<noteq> OPERATIONAL"
    by (simp add: g(1) f)
  have unset: "binding (example_expectation\<lparr>binding := Some ?unset\<rparr>) = Some ?unset"
    by simp
  note scenario' = if_trigger_update_damping
        [of "example_expectation\<lparr>binding := Some ?unset\<rparr>" ?unset 2 "PInt 2" False
          "?in 500" "?in 503" "?in 404"
          "\<lambda>_. Inl JSONDecodeError" PARTIAL_OUTAGE PARTIAL_OUTAGE PARTIAL_OUTAGE
          "\<lambda>_. ''down''", OF unset dflt(3),
          THEN conjunct2, THEN conjunct2, THEN conjunct2, THEN mp, OF pre']
  from first late up tolerant strict scenario scenario' show ?thesis
    by (intro conjI)
qed

section \<open>No redundant status push\<close>

lemma push_status_unchanged:
  assumes "binding e = Some b" and "previous_component_status b = component_status b"
  shows "push_status cl lg e =
     (e\<lparr>binding := Some (b\<lparr>trigger_update := False\<rparr>)\<rparr>,
      if lg then [Log_info [Txt ''No changes to component status.'']] else [])"
  using assms by (simp add: push_status_def)

lemma push_status_events:
  assumes "push_status cl lg e = (e', evs)"
  shows "length (filter is_push_status evs) \<le> 1"
  using assms
  by (auto simp: push_status_def Let_def split: option.splits if_splits)

lemma if_trigger_update_events:
  assumes "if_trigger_update d lg e = Inr (e', evs)"
  shows "list_all is_log evs"
  using assms
  by (auto simp: if_trigger_update_def Let_def and_then_def split: option.splits if_splits sum.splits)

lemma if_trigger_update_keeps:
  assumes "if_trigger_update d lg e = Inr (e', evs)" and "binding e = Some b"
  shows "\<exists>b'. binding e' = Some b' \<and>
           component_id b' = component_id b \<and> componemt_name b' = componemt_name b \<and>
           component_status b' = component_status b \<and>
           previous_component_status b' = previous_component_status b \<and>
           message b' = message b \<and> allowed_fails b' = allowed_fails b \<and>
           incident_id b' = incident_id b \<and>
           kind e' = kind e \<and> incident_status e' = incident_status e \<and>
           independent e' = independent e"
  using assms
  by (auto simp: if_trigger_update_def Let_def and_then_def split: if_splits sum.splits)

lemma fire_events: "filter is_push_status (fire ttl it msg lg whs) = []"
  by (induction whs) (auto simp: Let_def)

lemma trigger_webhooks_events:
  "filter is_push_status (trigger_webhooks name it whs lg e) = []"
  by (simp add: trigger_webhooks_def fire_events split: option.splits)

lemma push_incident_events:
  assumes "push_incident cl pub name it whs lg e = Inr (e', evs)"
  shows "filter is_push_status evs = []"
  using assms
  by (auto simp: push_incident_def Let_def and_then_def trigger_webhooks_events
      split: option.splits if_splits sum.splits)

lemma log_not_push: "list_all is_log evs \<Longrightarrow> filter is_push_status evs = []"
  by (induction evs) (auto elim: is_log.elims)


lemma cycle_steps:
  assumes "cycle json_loads gm inp e = Inr (e', evs)"
  obtains s e2 l2 e3 l3 l4 where
    "get_status json_loads e (cy_probe inp) = Inr s"
    "if_trigger_update (cy_allowed_fails inp) (cy_logger inp)
       (update_component_status gm s (cy_probe inp) e) = Inr (e2, l2)"
    "push_status (cy_client inp) (cy_logger inp) e2 = (e3, l3)"
    "push_incident (cy_client inp) (cy_public_incidents inp) (cy_endpoint_name inp)
       (cy_incident_title inp) (cy_webhooks inp) (cy_logger inp) e3 = Inr (e', l4)"
    "evs = l2 @ l3 @ l4"
  using assms
  by (auto simp: cycle_def evaluate_and_damp_def and_then_def split: sum.splits prod.splits)

lemma cycle_pushes:
  assumes c: "cycle json_loads gm inp e = Inr (e', evs)"
    and b: "binding e = Some b"
    and g: "get_status json_loads e (cy_probe inp) = Inr s"
  shows "length (filter is_push_status evs) \<le> (if s \<noteq> component_status b then 1 else 0) \<and>
         (\<exists>b'. binding e' = Some b' \<and> component_status b' = s \<and>
               previous_component_status b' = s) \<and>
         kind e' = kind e \<and> incident_status e' = incident_status e"
proof -
  from c obtain s' e2 l2 e3 l3 l4 where
    g': "get_status json_loads e (cy_probe inp) = Inr s'" and
    d: "if_trigger_update (cy_allowed_fails inp) (cy_logger inp)
       (update_component_status gm s' (cy_probe inp) e) = Inr (e2, l2)" and
    p: "push_status (cy_client inp) (cy_logger inp) e2 = (e3, l3)" and
    i: "push_incident (cy_client inp) (cy_public_incidents inp) (cy_endpoint_name inp)
       (cy_incident_title inp) (cy_webhooks inp) (cy_logger inp) e3 = Inr (e', l4)" and
    evs: "evs = l2 @ l3 @ l4"
    by (rule cycle_steps)
  from g g' have [simp]: "s' = s" by simp
  let ?e1 = "update_component_status gm s (cy_probe inp) e"
  let ?b1 = "b\<lparr>previous_component_status := component_status b, component_status := s,
               message := gm (cy_probe inp)\<rparr>"
  have e1: "binding ?e1 = Some ?b1" "kind ?e1 = kind e" "incident_status ?e1 = incident_status e"
    using b by (simp_all add: update_component_status_def)
  from if_trigger_update_keeps [OF d [simplified] e1(1)] e1(2,3)
  obtain b2 where b2: "binding e2 = Some b2" "component_status b2 = s"
      "previous_component_status b2 = component_status b"
      "kind e2 = kind e" "incident_status e2 = incident_status e"
    by auto
  from push_status_keeps [OF p b2(1)] b2
  obtain b3 where b3: "binding e3 = Some b3" "component_status b3 = s"
      "previous_component_status b3 = s" "kind e3 = kind e" "incident_status e3 = incident_status e"
    by auto
  from push_incident_keeps [OF i b3(1)] b3
  have fin: "(\<exists>b'. binding e' = Some b' \<and> component_status b' = s \<and>
               previous_component_status b' = s) \<and>
         kind e' = kind e \<and> incident_status e' = incident_status e"
    by auto
  have n2: "filter is_push_status l2 = []"
    using if_trigger_update_events [OF d] by (rule log_not_push)
  have n4: "filter is_push_status l4 = []"
    using i by (rule push_incident_events)
  have n3: "length (filter is_push_status l3) \<le> (if s \<noteq> component_status b then 1 else 0)"
  proof (cases "s = component_status b")
    case True
    then have "previous_component_status b2 = component_status b2" using b2 by simp
    from push_status_unchanged [OF b2(1) this, of "cy_client inp" "cy_logger inp"] p
    show ?thesis by auto
  next
    case False
    then show ?thesis using push_status_events [OF p] by simp
  qed
  show ?thesis
    using fin n2 n3 n4 evs by simp
qed

lemma run_pushes:
  assumes "run json_loads gm e inps = Inr (e', evs)"
    and "binding e = Some b"
    and "list_all2 (\<lambda>inp s. get_status json_loads e (cy_probe inp) = Inr s) inps ss"
  shows "length (filter is_push_status evs) \<le> changes (component_status b) ss"
  using assms
proof (induction inps arbitrary: e b evs ss)
  case Nil
  then show ?case by simp
next
  case (Cons inp inps)
  from Cons.prems(3) obtain s ss' where ss: "ss = s # ss'"
      and g: "get_status json_loads e (cy_probe inp) = Inr s"
      and rest: "list_all2 (\<lambda>inp s. get_status json_loads e (cy_probe inp) = Inr s) inps ss'"
    by (auto simp: list_all2_Cons1)
  from Cons.prems(1) obtain e1 l1 l2 where
      c: "cycle json_loads gm inp e = Inr (e1, l1)" and
      r: "run json_loads gm e1 inps = Inr (e', l2)" and
      evs: "evs = l1 @ l2"
    by (auto split: sum.splits prod.splits)
  from cycle_pushes [OF c Cons.prems(2) g]
  obtain b1 where b1: "binding e1 = Some b1" "component_status b1 = s"
      and k: "kind e1 = kind e" "incident_status e1 = incident_status e"
      and n: "length (filter is_push_status l1) \<le> (if s \<noteq> component_status b then 1 else 0)"
    by auto
  have rest': "list_all2 (\<lambda>inp s. get_status json_loads e1 (cy_probe inp) = Inr s) inps ss'"
    using rest get_status_same_kind [OF k] by simp
  from Cons.IH [OF r b1(1) rest'] b1(2)
  have "length (filter is_push_status l2) \<le> changes s ss'" by simp
  then show ?case using n evs ss by simp
qed

lemma changes_constant: "\<forall>x \<in> set ss. x = s \<Longrightarrow> changes s ss = 0"
  by (induction ss) auto


lemma changes_same: "\<forall>x \<in> set ss. x = s \<Longrightarrow> changes c ss \<le> 1"
  by (induction ss arbitrary: c) (auto simp: changes_constant)

text \<open>
  Claim C5. When \<open>previous_component_status\<close> equals \<open>component_status\<close>,
  \<open>push_status\<close> calls no backend (at most it logs) and sets \<open>trigger_update\<close> to
  false. Hence over any sequence of cycles the backend's \<open>push_status\<close> is called at
  most once for each change of the classification: never while the classification stays
  what the status already is, and at most once while it stays at one value.
\<close>

theorem push_status_once_per_change:
  assumes "binding e = Some b"
  shows "(previous_component_status b = component_status b \<longrightarrow>
            push_status cl lg e =
              (e\<lparr>binding := Some (b\<lparr>trigger_update := False\<rparr>)\<rparr>,
               if lg then [Log_info [Txt ''No changes to component status.'']] else [])) \<and>
         (run json_loads gm e inps = Inr (e', evs) \<and>
          list_all2 (\<lambda>inp s. get_status json_loads e (cy_probe inp) = Inr s) inps ss \<longrightarrow>
            length (filter is_push_status evs) \<le> changes (component_status b) ss \<and>
            ((\<forall>x \<in> set ss. x = s) \<longrightarrow> length (filter is_push_status evs) \<le> 1) \<and>
            ((\<forall>x \<in> set ss. x = component_status b) \<longrightarrow> filter is_push_status evs = []))"
proof -
  have "length (filter is_push_status evs) \<le> changes (component_status b) ss"
    if "run json_loads gm e inps = Inr (e', evs)"
      "list_all2 (\<lambda>inp s. get_status json_loads e (cy_probe inp) = Inr s) inps ss"
    using run_pushes [OF that(1) assms that(2)] .
  then show ?thesis
    using push_status_unchanged [OF assms, of cl lg]
      changes_same [of ss s "component_status b"]
      changes_constant [of ss "component_status b"]
    by fastforce
qed


lemmas run_defs = cycle_def evaluate_and_damp_def and_then_def get_status_def
  HttpStatus_get_status_def update_component_status_def if_trigger_update_def
  effective_allowed_fails_def int_le_py_def push_status_def push_incident_def
  trigger_webhooks_def title_def Let_def

lemmas example_defs = example_expectation_def example_bound_def example_input_def
  example_client_def example_webhook_def

lemma example_run:
  "run (\<lambda>_. Inl JSONDecodeError) (\<lambda>_. ''down'')
     (example_expectation\<lparr>binding := Some (example_bound\<lparr>allowed_fails := PInt 0\<rparr>)\<rparr>)
     [example_input 500, example_input 500] =
   Inr (example_expectation\<lparr>binding :=
          Some (example_bound\<lparr>allowed_fails := PInt 0, component_status := PARTIAL_OUTAGE,
                  previous_component_status := PARTIAL_OUTAGE, current_fails := 0,
                  trigger_update := False, message := ''down'', incident_id := Some (PInt 7)\<rparr>)\<rparr>,
        [Get_component_status (PInt 3), Push_status (PInt 3) PARTIAL_OUTAGE,
         Push_incident PARTIAL_OUTAGE (PBool True) (PInt 3) ''Incident'' None (Some ''down''),
         Webhook_push_incident ''http://hook'' ''Incident'' ''down''])"
  by (simp add: run_defs example_defs)


theorem push_status_once_per_change_witness:
  "push_status example_client False example_expectation =
     (example_expectation\<lparr>binding := Some (example_bound\<lparr>trigger_update := False\<rparr>)\<rparr>, []) \<and>
   (\<exists>e' evs.
      run (\<lambda>_. Inl JSONDecodeError) (\<lambda>_. ''down'')
        (example_expectation\<lparr>binding := Some (example_bound\<lparr>allowed_fails := PInt 0\<rparr>)\<rparr>)
        [example_input 500, example_input 500] = Inr (e', evs) \<and>
      length (filter is_push_status evs) \<le> 1)"
proof -
  let ?e = "example_expectation\<lparr>binding := Some (example_bound\<lparr>allowed_fails := PInt 0\<rparr>)\<rparr>"
  let ?b = "example_bound\<lparr>allowed_fails := PInt 0\<rparr>"
  have same: "previous_component_status example_bound = component_status example_bound"
    by (simp add: example_bound_def)
  have b: "binding example_expectation = Some example_bound"
    by (simp add: example_expectation_def)
  have first: "push_status example_client False example_expectation =
     (example_expectation\<lparr>binding := Some (example_bound\<lparr>trigger_update := False\<rparr>)\<rparr>, [])"
    using push_status_once_per_change [OF b, of example_client False, THEN conjunct1] same
    by simp
  have g: "list_all2 (\<lambda>inp s. get_status (\<lambda>_. Inl JSONDecodeError) ?e (cy_probe inp) = Inr s)
             [example_input 500, example_input 500] [PARTIAL_OUTAGE, PARTIAL_OUTAGE]"
    by (simp add: get_status_def HttpStatus_get_status_def example_defs)
  have b': "binding ?e = Some ?b" by simp
  have all: "\<forall>x \<in> set [PARTIAL_OUTAGE, PARTIAL_OUTAGE]. x = PARTIAL_OUTAGE" by simp
  note second = push_status_once_per_change [OF b', THEN conjunct2, THEN mp,
      OF conjI [OF example_run g], THEN conjunct2, THEN conjunct1, THEN mp, OF all]
  show ?thesis
    using first example_run second by blast
qed

section \<open>The previous status\<close>

lemma run_status:
  assumes "run json_loads gm e inps = Inr (e', evs)"
    and "binding e = Some b"
    and "list_all2 (\<lambda>inp s. get_status json_loads e (cy_probe inp) = Inr s) inps ss"
  shows "\<exists>b'. binding e' = Some b' \<and> component_status b' = last (component_status b # ss) \<and>
           kind e' = kind e \<and> incident_status e' = incident_status e"
  using assms
proof (induction inps arbitrary: e b evs ss)
  case Nil
  then show ?case by simp
next
  case (Cons inp inps)
  from Cons.prems(3) obtain s ss' where ss: "ss = s # ss'"
      and g: "get_status json_loads e (cy_probe inp) = Inr s"
      and rest: "list_all2 (\<lambda>inp s. get_status json_loads e (cy_probe inp) = Inr s) inps ss'"
    by (auto simp: list_all2_Cons1)
  from Cons.prems(1) obtain e1 l1 l2 where
      c: "cycle json_loads gm inp e = Inr (e1, l1)" and
      r: "run json_loads gm e1 inps = Inr (e', l2)"
    by (auto split: sum.splits prod.splits)
  from cycle_pushes [OF c Cons.prems(2) g]
  obtain b1 where b1: "binding e1 = Some b1" "component_status b1 = s"
      and k: "kind e1 = kind e" "incident_status e1 = incident_status e"
    by auto
  have rest': "list_all2 (\<lambda>inp s. get_status json_loads e1 (cy_probe inp) = Inr s) inps ss'"
    using rest get_status_same_kind [OF k] by simp
  from Cons.IH [OF r b1(1) rest'] b1(2) k ss
  show ?case by auto
qed

lemma evaluate_and_damp_previous:
  assumes "evaluate_and_damp json_loads gm inp e = Inr (d, l)" and "binding e = Some b"
  shows "\<exists>bd s. binding d = Some bd \<and> get_status json_loads e (cy_probe inp) = Inr s \<and>
           previous_component_status bd = component_status b \<and> component_status bd = s"
proof -
  from assms(1) obtain s where g: "get_status json_loads e (cy_probe inp) = Inr s"
    and d: "if_trigger_update (cy_allowed_fails inp) (cy_logger inp)
              (update_component_status gm s (cy_probe inp) e) = Inr (d, l)"
    by (auto simp: evaluate_and_damp_def and_then_def split: sum.splits)
  have u: "binding (update_component_status gm s (cy_probe inp) e) =
             Some (b\<lparr>previous_component_status := component_status b, component_status := s,
                     message := gm (cy_probe inp)\<rparr>)"
    using assms(2) by (simp add: update_component_status_def)
  from if_trigger_update_keeps [OF d u] g show ?thesis by auto
qed

text \<open>
  Claim C1, as the code has it. For a bound expectation and any sequence of cycles, when
  \<open>push_status\<close> makes its check in the next cycle, \<open>previous_component_status\<close>
  is the \<open>component_status\<close> that the preceding cycle left, which is the classification
  of that cycle (the status at the start when there was no cycle before). The evaluate
  step moves \<open>component_status\<close> into it; \<open>if_trigger_update\<close> and
  \<open>push_incident\<close> never change it; \<open>push_status\<close> does write it: on return it
  always equals \<open>component_status\<close>.
\<close>

theorem previous_status_is_preceding_cycle:
  assumes "binding e = Some b"
  shows "(run json_loads gm e inps = Inr (e', evs) \<and>
          list_all2 (\<lambda>inp s. get_status json_loads e (cy_probe inp) = Inr s) inps ss \<and>
          evaluate_and_damp json_loads gm inp e' = Inr (d, l) \<longrightarrow>
            (\<exists>b' bd. binding e' = Some b' \<and> binding d = Some bd \<and>
               previous_component_status bd = component_status b' \<and>
               component_status b' = last (component_status b # ss))) \<and>
         map_option previous_component_status
           (binding (update_component_status gm s resp e)) = Some (component_status b) \<and>
         (if_trigger_update dflt lg e = Inr (e1, l1) \<longrightarrow>
            map_option previous_component_status (binding e1) =
              Some (previous_component_status b)) \<and>
         (push_incident cl pub name ttl whs lg e = Inr (e2, l2) \<longrightarrow>
            map_option previous_component_status (binding e2) =
              Some (previous_component_status b)) \<and>
         map_option previous_component_status (binding (fst (push_status cl lg e))) =
           Some (component_status b)"
proof -
  have r: "\<exists>b' bd. binding e' = Some b' \<and> binding d = Some bd \<and>
               previous_component_status bd = component_status b' \<and>
               component_status b' = last (component_status b # ss)"
    if "run json_loads gm e inps = Inr (e', evs)"
      "list_all2 (\<lambda>inp s. get_status json_loads e (cy_probe inp) = Inr s) inps ss"
      "evaluate_and_damp json_loads gm inp e' = Inr (d, l)"
  proof -
    from run_status [OF that(1) assms that(2)]
    obtain b' where b': "binding e' = Some b'" "component_status b' = last (component_status b # ss)"
      by auto
    from evaluate_and_damp_previous [OF that(3) b'(1)] b' show ?thesis by auto
  qed
  have u: "map_option previous_component_status
           (binding (update_component_status gm s resp e)) = Some (component_status b)"
    using assms by (simp add: update_component_status_def)
  have t: "map_option previous_component_status (binding e1) = Some (previous_component_status b)"
    if "if_trigger_update dflt lg e = Inr (e1, l1)"
    using if_trigger_update_keeps [OF that assms] by auto
  have i: "map_option previous_component_status (binding e2) = Some (previous_component_status b)"
    if "push_incident cl pub name ttl whs lg e = Inr (e2, l2)"
    using push_incident_keeps [OF that assms] by auto
  have p: "map_option previous_component_status (binding (fst (push_status cl lg e))) =
           Some (component_status b)"
    using push_status_keeps [OF _ assms, of cl lg "fst (push_status cl lg e)" "snd (push_status cl lg e)"]
    by auto
  show ?thesis
    using r u t i p by blast
qed

text \<open>
  Claim C1 as stated fails in its last part: \<open>push_status\<close> is an operation other
  than the evaluate step that changes \<open>previous_component_status\<close>, here from
  \<open>OPERATIONAL\<close> to \<open>MAJOR_OUTAGE\<close>.
\<close>

theorem push_status_writes_previous_counterexample:
  "previous_component_status example_bound = OPERATIONAL \<and>
   push_status example_client False
     (example_expectation\<lparr>binding := Some (example_bound\<lparr>component_status := MAJOR_OUTAGE\<rparr>)\<rparr>) =
     (example_expectation\<lparr>binding :=
        Some (example_bound\<lparr>component_status := MAJOR_OUTAGE,
                              previous_component_status := MAJOR_OUTAGE\<rparr>)\<rparr>,
      [Get_component_status (PInt 3), Push_status (PInt 3) MAJOR_OUTAGE])"
  by (simp add: push_status_def example_defs)


theorem previous_status_is_preceding_cycle_witness:
  "(\<exists>e' evs d l b' bd.
      run (\<lambda>_. Inl JSONDecodeError) (\<lambda>_. ''down'')
        (example_expectation\<lparr>binding := Some (example_bound\<lparr>allowed_fails := PInt 0\<rparr>)\<rparr>)
        [example_input 500, example_input 500] = Inr (e', evs) \<and>
      evaluate_and_damp (\<lambda>_. Inl JSONDecodeError) (\<lambda>_. ''down'') (example_input 200) e' =
        Inr (d, l) \<and>
      binding e' = Some b' \<and> binding d = Some bd \<and>
      component_status b' = PARTIAL_OUTAGE \<and>
      previous_component_status bd = PARTIAL_OUTAGE \<and>
      component_status bd = OPERATIONAL) \<and>
   (\<exists>e1 l1.
      if_trigger_update (PInt 0) False
        (example_expectation\<lparr>binding := Some (example_bound\<lparr>component_status := MAJOR_OUTAGE\<rparr>)\<rparr>) =
        Inr (e1, l1) \<and>
      map_option previous_component_status (binding e1) = Some OPERATIONAL) \<and>
   (\<exists>e2 l2.
      push_incident example_client (PBool True) ''api'' ''Incident'' [example_webhook] False
        (example_expectation\<lparr>binding := Some (example_bound\<lparr>component_status := MAJOR_OUTAGE\<rparr>)\<rparr>) =
        Inr (e2, l2) \<and>
      map_option previous_component_status (binding e2) = Some OPERATIONAL) \<and>
   map_option previous_component_status
     (binding (fst (push_status example_client False
        (example_expectation\<lparr>binding :=
           Some (example_bound\<lparr>component_status := MAJOR_OUTAGE\<rparr>)\<rparr>)))) = Some MAJOR_OUTAGE"
proof -
  let ?e = "example_expectation\<lparr>binding := Some (example_bound\<lparr>allowed_fails := PInt 0\<rparr>)\<rparr>"
  let ?e' = "example_expectation\<lparr>binding :=
          Some (example_bound\<lparr>allowed_fails := PInt 0, component_status := PARTIAL_OUTAGE,
                  previous_component_status := PARTIAL_OUTAGE, current_fails := 0,
                  trigger_update := False, message := ''down'', incident_id := Some (PInt 7)\<rparr>)\<rparr>"
  let ?down = "example_bound\<lparr>component_status := MAJOR_OUTAGE\<rparr>"
  let ?ed = "example_expectation\<lparr>binding := Some ?down\<rparr>"
  have b: "binding ?e = Some (example_bound\<lparr>allowed_fails := PInt 0\<rparr>)" by simp
  have bd: "binding ?ed = Some ?down" by simp
  have prev: "previous_component_status ?down = OPERATIONAL" "component_status ?down = MAJOR_OUTAGE"
    by (simp_all add: example_bound_def)
  have g: "list_all2 (\<lambda>inp s. get_status (\<lambda>_. Inl JSONDecodeError) ?e (cy_probe inp) = Inr s)
             [example_input 500, example_input 500] [PARTIAL_OUTAGE, PARTIAL_OUTAGE]"
    by (simp add: get_status_def HttpStatus_get_status_def example_defs)
  obtain d l where ed: "evaluate_and_damp (\<lambda>_. Inl JSONDecodeError) (\<lambda>_. ''down'')
      (example_input 200) ?e' = Inr (d, l)" and cs: "map_option component_status (binding d) = Some OPERATIONAL"
    by (simp add: run_defs example_defs)
  from previous_status_is_preceding_cycle [OF b, THEN conjunct1, THEN mp,
      OF conjI [OF example_run conjI [OF g ed]]]
  obtain b' bd where "binding ?e' = Some b'" "binding d = Some bd"
    "previous_component_status bd = component_status b'"
    "component_status b' = PARTIAL_OUTAGE"
    by auto
  then have cycles: "\<exists>e' evs d l b' bd.
      run (\<lambda>_. Inl JSONDecodeError) (\<lambda>_. ''down'') ?e
        [example_input 500, example_input 500] = Inr (e', evs) \<and>
      evaluate_and_damp (\<lambda>_. Inl JSONDecodeError) (\<lambda>_. ''down'') (example_input 200) e' =
        Inr (d, l) \<and>
      binding e' = Some b' \<and> binding d = Some bd \<and>
      component_status b' = PARTIAL_OUTAGE \<and>
      previous_component_status bd = PARTIAL_OUTAGE \<and>
      component_status bd = OPERATIONAL"
    using example_run ed cs by fastforce
  obtain e1 l1 where d1: "if_trigger_update (PInt 0) False ?ed = Inr (e1, l1)"
    by (simp add: run_defs example_defs)
  have damping: "map_option previous_component_status (binding e1) = Some OPERATIONAL"
    using previous_status_is_preceding_cycle [OF bd, THEN conjunct2, THEN conjunct2,
        THEN conjunct1, THEN mp, OF d1]
      prev
    by simp
  obtain e2 l2 where d2: "push_incident example_client (PBool True) ''api'' ''Incident''
      [example_webhook] False ?ed = Inr (e2, l2)"
    by (simp add: run_defs example_defs)
  have incident: "map_option previous_component_status (binding e2) = Some OPERATIONAL"
    using previous_status_is_preceding_cycle [OF bd, THEN conjunct2, THEN conjunct2,
        THEN conjunct2, THEN conjunct1, THEN mp, OF d2]
      prev
    by simp
  have push: "map_option previous_component_status
     (binding (fst (push_status example_client False ?ed))) = Some MAJOR_OUTAGE"
    using previous_status_is_preceding_cycle [OF bd, where cl = example_client and lg = False,
        THEN conjunct2, THEN conjunct2, THEN conjunct2, THEN conjunct2]
      prev
    by simp
  from cycles d1 damping d2 incident push show ?thesis
    by blast
qed

section \<open>Notifying the webhooks\<close>

lemma fire_concat: "fire ttl it msg lg whs = concat (map (delivery ttl it msg lg) whs)"
  by (induction whs) (simp_all add: delivery_def Let_def)

lemma fire_calls:
  "filter is_webhook_call (fire ttl it msg lg whs) =
     map (\<lambda>w. Webhook_push_incident (url w) it msg) whs"
  by (induction whs) (simp_all add: Let_def)

lemma title_templates:
  "title name b = name @ '' (Component '' @ componemt_name b @ '') '' @
     (if component_status b = PERFORMANCE_ISSUES then ''degraded''
      else if component_status b = OPERATIONAL then ''OK'' else ''unavailable'')"
  by (simp add: title_def)

text \<open>
  Claim C2, as the code has it. For a bound expectation, \<open>trigger_webhooks\<close> builds a
  title from the endpoint name, the component's name and the status, by one of three
  templates: "... degraded" for \<open>PERFORMANCE_ISSUES\<close>, "... OK" for \<open>OPERATIONAL\<close>,
  "... unavailable" for any other status. Every webhook, in order and whatever the others
  answered, is called once with the incident title that the caller passed and the current
  message. The title built from the templates goes to the log entry of a successful
  delivery only, and only when there is a logger.
\<close>

theorem trigger_webhooks_delivers_incident_title:
  assumes "binding e = Some b"
  shows "title name b = name @ '' (Component '' @ componemt_name b @ '') '' @
           (if component_status b = PERFORMANCE_ISSUES then ''degraded''
            else if component_status b = OPERATIONAL then ''OK'' else ''unavailable'') \<and>
         trigger_webhooks name it whs lg e =
           concat (map (delivery (title name b) it (message b) lg) whs) \<and>
         filter is_webhook_call (trigger_webhooks name it whs lg e) =
           map (\<lambda>w. Webhook_push_incident (url w) it (message b)) whs \<and>
         (\<not> lg \<longrightarrow> trigger_webhooks name it whs lg e =
                    map (\<lambda>w. Webhook_push_incident (url w) it (message b)) whs)"
proof -
  have quiet: "concat (map (delivery ttl it msg False) whs) =
      map (\<lambda>w. Webhook_push_incident (url w) it msg) whs" for ttl msg
    by (induction whs) (simp_all add: delivery_def)
  show ?thesis
    using assms quiet
    by (simp add: trigger_webhooks_def fire_concat [symmetric] fire_calls title_templates)
qed

theorem trigger_webhooks_delivers_incident_title_witness:
  "title ''api'' (example_bound\<lparr>component_status := PERFORMANCE_ISSUES\<rparr>) =
     ''api (Component web) degraded'' \<and>
   title ''api'' example_bound = ''api (Component web) OK'' \<and>
   title ''api'' (example_bound\<lparr>component_status := MAJOR_OUTAGE\<rparr>) =
     ''api (Component web) unavailable'' \<and>
   trigger_webhooks ''api'' ''Incident'' [example_webhook, example_webhook_ok] True
     example_expectation =
     [Webhook_push_incident ''http://hook'' ''Incident'' [],
      Log_warning [Txt ''Webhook '', Txt ''http://hook'', Txt '' failed with status ['',
                   Num 500, Txt '']''],
      Webhook_push_incident ''http://ok'' ''Incident'' [],
      Log_info [Txt ''Webhook '', Txt ''http://ok'', Txt '' triggered with '',
                Txt ''api (Component web) OK'']] \<and>
   trigger_webhooks ''api'' ''Incident'' [example_webhook, example_webhook_ok] False
     example_expectation =
     [Webhook_push_incident ''http://hook'' ''Incident'' [],
      Webhook_push_incident ''http://ok'' ''Incident'' []]"
proof -
  have b: "binding example_expectation = Some example_bound"
    "binding (example_expectation\<lparr>binding := Some (example_bound\<lparr>component_status := s\<rparr>)\<rparr>) =
       Some (example_bound\<lparr>component_status := s\<rparr>)" for s
    by (simp_all add: example_expectation_def)
  have t1: "title ''api'' (example_bound\<lparr>component_status := PERFORMANCE_ISSUES\<rparr>) =
     ''api (Component web) degraded''"
    using trigger_webhooks_delivers_incident_title [OF b(2), of "''api''" PERFORMANCE_ISSUES,
        THEN conjunct1]
    by (simp add: example_bound_def)
  have t2: "title ''api'' example_bound = ''api (Component web) OK''"
    using trigger_webhooks_delivers_incident_title [OF b(1), of "''api''", THEN conjunct1]
    by (simp add: example_bound_def)
  have t3: "title ''api'' (example_bound\<lparr>component_status := MAJOR_OUTAGE\<rparr>) =
     ''api (Component web) unavailable''"
    using trigger_webhooks_delivers_incident_title [OF b(2), of "''api''" MAJOR_OUTAGE,
        THEN conjunct1]
    by (simp add: example_bound_def)
  have ev: "trigger_webhooks ''api'' ''Incident'' [example_webhook, example_webhook_ok] True
     example_expectation =
     [Webhook_push_incident ''http://hook'' ''Incident'' [],
      Log_warning [Txt ''Webhook '', Txt ''http://hook'', Txt '' failed with status ['',
                   Num 500, Txt '']''],
      Webhook_push_incident ''http://ok'' ''Incident'' [],
      Log_info [Txt ''Webhook '', Txt ''http://ok'', Txt '' triggered with '',
                Txt ''api (Component web) OK'']]"
    using trigger_webhooks_delivers_incident_title
        [OF b(1), of "''api''" "''Incident''" "[example_webhook, example_webhook_ok]" True,
         THEN conjunct2, THEN conjunct1] t2
    by (simp add: delivery_def example_webhook_def example_webhook_ok_def example_bound_def)
  have quiet: "trigger_webhooks ''api'' ''Incident'' [example_webhook, example_webhook_ok] False
     example_expectation =
     [Webhook_push_incident ''http://hook'' ''Incident'' [],
      Webhook_push_incident ''http://ok'' ''Incident'' []]"
    using trigger_webhooks_delivers_incident_title
        [OF b(1), of "''api''" "''Incident''" "[example_webhook, example_webhook_ok]" False,
         THEN conjunct2, THEN conjunct2, THEN conjunct2]
    by (simp add: example_webhook_def example_webhook_ok_def example_bound_def)
  from t1 t2 t3 ev quiet show ?thesis by (intro conjI)
qed

text \<open>
  Claim C2 as stated fails: the webhook does not receive the title derived from the
  status, "api (Component web) unavailable", but the caller's title "Incident".
\<close>

theorem trigger_webhooks_title_counterexample:
  "title ''api'' (example_bound\<lparr>component_status := MAJOR_OUTAGE, message := ''down''\<rparr>) =
     ''api (Component web) unavailable'' \<and>
   trigger_webhooks ''api'' ''Incident'' [example_webhook] False
     (example_expectation\<lparr>binding :=
        Some (example_bound\<lparr>component_status := MAJOR_OUTAGE, message := ''down''\<rparr>)\<rparr>) =
     [Webhook_push_incident ''http://hook'' ''Incident'' ''down'']"
  by (simp add: trigger_webhooks_def title_def example_defs)

section \<open>Opening and resolving incidents\<close>










section \<open>Classifying by a field of a JSON body\<close>

lemma walk_last:
  "fs \<noteq> [] \<Longrightarrow>
     (case and_then (walk d (butlast fs)) (\<lambda>tmp. dict_get tmp (last fs) PNone) of
        Inl e \<Rightarrow> None | Inr v \<Rightarrow> Some v) = dotted_path_value d fs"
proof (induction d fs rule: dotted_path_value.induct)
  case (1 d)
  then show ?case by simp
next
  case (2 d k)
  then show ?case by (cases d) (simp_all add: and_then_def dict_get_def)
next
  case (3 d k k' ks)
  then show ?case by (cases d) (simp_all add: and_then_def dict_get_def)
qed

lemma JsonFieldValueCheck_value_path:
  assumes "fs \<noteq> []"
  shows "(case JsonFieldValueCheck_value json_loads fs resp of Inl e \<Rightarrow> None | Inr v \<Rightarrow> Some v) =
     (case json_loads (resp_text resp) of
        Inl e \<Rightarrow> None
      | Inr doc \<Rightarrow> dotted_path_value doc fs)"
proof (cases "json_loads (resp_text resp)")
  case (Inl e)
  then show ?thesis by (simp add: JsonFieldValueCheck_value_def and_then_def)
next
  case (Inr doc)
  have "take (length fs - 1) fs = butlast fs" by (simp add: butlast_conv_take)
  then show ?thesis
    using Inr assms walk_last [OF assms, of doc]
    by (simp add: JsonFieldValueCheck_value_def and_then_def split: sum.splits)
qed

lemma JsonFieldValueCheck_get_status_path:
  assumes "fs \<noteq> []"
  shows "JsonFieldValueCheck_get_status json_loads fs val ist resp =
     (case json_loads (resp_text resp) of
        Inl e \<Rightarrow> ist
      | Inr doc \<Rightarrow>
          (case dotted_path_value doc fs of
             None \<Rightarrow> ist
           | Some v \<Rightarrow> if py_eq v val then OPERATIONAL else ist))"
  using JsonFieldValueCheck_value_path [OF assms, of json_loads resp]
  by (auto simp: JsonFieldValueCheck_get_status_def split: sum.splits option.splits)

lemma empty_path_value: "fs \<noteq> [] \<Longrightarrow> dotted_path_value (PDict []) fs = Some PNone"
  by (induction "PDict []" fs rule: dotted_path_value.induct) simp_all

lemma missing_path_value:
  "fs \<noteq> [] \<Longrightarrow> \<not> path_present d fs \<Longrightarrow>
     dotted_path_value d fs = None \<or> dotted_path_value d fs = Some PNone"
proof (induction d fs rule: dotted_path_value.induct)
  case (1 d)
  then show ?case by simp
next
  case (2 d k)
  then show ?case by (cases d) (auto split: option.splits)
next
  case (3 d k k' ks)
  then show ?case
    by (cases d) (auto simp: empty_path_value split: option.splits)
qed

lemma py_eq_None: "py_eq PNone val \<longleftrightarrow> val = PNone"
  by (cases val) simp_all


lemma JsonFieldValueCheck_init_Inr:
  assumes "JsonFieldValueCheck_init incident_map cfg cl = Inr (e, evs)"
  shows "\<exists>s val. cfg ''field'' = Some (PStr s) \<and> cfg ''value'' = Some val \<and>
           kind e = JsonFieldValueCheck (PStr s) val (str_split CHR ''.'' s) \<and>
           parse_incident_status incident_map PARTIAL_OUTAGE cfg = Inr (incident_status e)"
  using assms
  by (auto simp: JsonFieldValueCheck_init_def configuration_item_def and_then_def
      dest: init_Inr split: option.splits sum.splits pyval.splits)

text \<open>
  Claim C6, as the code has it. For every response, \<open>get_status\<close> of a
  \<open>JsonFieldValueCheck\<close> expectation, as its constructor builds it, returns a status and
  raises nothing. It is \<open>OPERATIONAL\<close> when the body decodes and the value at the dotted
  path equals the configured value under Python's \<open>==\<close>; it is the expectation's
  \<open>incident_status\<close> in every other case: a body that does not decode, a value on the
  path that is no mapping, a value that differs. A path that is missing gives
  \<open>incident_status\<close> when the configured value is not \<open>None\<close>; when it is
  \<open>None\<close>, the missing last segment is looked up as \<open>None\<close>, compares equal, and
  gives \<open>OPERATIONAL\<close>.
\<close>

theorem JsonFieldValueCheck_get_status_absorbs_errors:
  assumes "JsonFieldValueCheck_init incident_map cfg cl = Inr (e, evs)"
    and "cfg ''field'' = Some (PStr field)" and "cfg ''value'' = Some val"
  shows "get_status json_loads e resp =
           Inr (case json_loads (resp_text resp) of
                  Inl err \<Rightarrow> incident_status e
                | Inr doc \<Rightarrow>
                    (case dotted_path_value doc (str_split CHR ''.'' field) of
                       None \<Rightarrow> incident_status e
                     | Some v \<Rightarrow> if py_eq v val then OPERATIONAL else incident_status e)) \<and>
         (json_loads (resp_text resp) = Inr doc \<and>
          \<not> path_present doc (str_split CHR ''.'' field) \<and> val \<noteq> PNone \<longrightarrow>
            get_status json_loads e resp = Inr (incident_status e)) \<and>
         (json_loads (resp_text resp) = Inr doc \<and>
          \<not> path_present doc (str_split CHR ''.'' field) \<and> val = PNone \<and>
          dotted_path_value doc (str_split CHR ''.'' field) \<noteq> None \<longrightarrow>
            get_status json_loads e resp = Inr OPERATIONAL)"
proof -
  let ?fs = "str_split CHR ''.'' field"
  have ne: "?fs \<noteq> []" by (rule str_split_nonempty)
  from JsonFieldValueCheck_init_Inr [OF assms(1)] assms(2,3)
  have k: "kind e = JsonFieldValueCheck (PStr field) val ?fs" by auto
  have g: "get_status json_loads e resp =
      Inr (JsonFieldValueCheck_get_status json_loads ?fs val (incident_status e) resp)"
    by (simp add: get_status_def k)
  note p = JsonFieldValueCheck_get_status_path [OF ne, of json_loads val "incident_status e" resp]
  have m: "dotted_path_value doc ?fs = None \<or> dotted_path_value doc ?fs = Some PNone"
    if "\<not> path_present doc ?fs"
    using missing_path_value [OF ne that] .
  show ?thesis
    using g p m by (auto simp: py_eq_None)
qed

text \<open>
  Claim C6 as stated fails for a missing path: with the expected value \<open>None\<close>, the
  body "{}", in which the path "data.status" is missing, classifies as \<open>OPERATIONAL\<close>.
\<close>

theorem JsonFieldValueCheck_missing_path_counterexample:
  "str_split CHR ''.'' ''data.status'' = [''data'', ''status''] \<and>
   example_json_loads ''{}'' = Inr (PDict []) \<and>
   JsonFieldValueCheck_get_status example_json_loads (str_split CHR ''.'' ''data.status'') PNone
     PARTIAL_OUTAGE \<lparr>status_code = 200, elapsed_total_seconds = Finite 0, resp_text = ''{}''\<rparr> =
     OPERATIONAL"
  by (simp add: JsonFieldValueCheck_get_status_def JsonFieldValueCheck_value_def and_then_def
      example_json_loads_def dict_get_def)


theorem JsonFieldValueCheck_get_status_absorbs_errors_witness:
  "(\<exists>e evs.
      JsonFieldValueCheck_init example_incident_map
        [''field'' \<mapsto> PStr ''data.status'', ''value'' \<mapsto> PStr ''UP''] example_client =
        Inr (e, evs) \<and>
      get_status example_json_loads e
        \<lparr>status_code = 200, elapsed_total_seconds = Finite 0, resp_text = example_body\<rparr> =
        Inr OPERATIONAL \<and>
      get_status example_json_loads e
        \<lparr>status_code = 200, elapsed_total_seconds = Finite 0, resp_text = ''{}''\<rparr> =
        Inr PARTIAL_OUTAGE \<and>
      get_status example_json_loads e
        \<lparr>status_code = 200, elapsed_total_seconds = Finite 0, resp_text = ''[1]''\<rparr> =
        Inr PARTIAL_OUTAGE \<and>
      get_status example_json_loads e
        \<lparr>status_code = 200, elapsed_total_seconds = Finite 0, resp_text = ''<html>''\<rparr> =
        Inr PARTIAL_OUTAGE) \<and>
   (\<exists>e evs.
      JsonFieldValueCheck_init example_incident_map
        [''field'' \<mapsto> PStr ''data.status'', ''value'' \<mapsto> PNone] example_client =
        Inr (e, evs) \<and>
      get_status example_json_loads e
        \<lparr>status_code = 200, elapsed_total_seconds = Finite 0, resp_text = ''{}''\<rparr> =
        Inr OPERATIONAL)"
proof -
  let ?up = "[''field'' \<mapsto> PStr ''data.status'', ''value'' \<mapsto> PStr ''UP'']"
  let ?null = "[''field'' \<mapsto> PStr ''data.status'', ''value'' \<mapsto> PNone]"
  let ?r = "\<lambda>t. \<lparr>status_code = 200, elapsed_total_seconds = Finite 0, resp_text = t\<rparr>"
  have fs: "str_split CHR ''.'' ''data.status'' = [''data'', ''status'']" by simp
  have body: "example_body \<noteq> ''{}''" "example_body \<noteq> ''[1]''"
    by (simp_all add: example_body_def)
  have loads: "example_json_loads example_body =
      Inr (PDict [(''data'', PDict [(''status'', PStr ''UP''), (''other'', PInt 3)])])"
    "example_json_loads ''{}'' = Inr (PDict [])"
    "example_json_loads ''[1]'' = Inr (PList [PInt 1])"
    "example_json_loads ''<html>'' = Inl JSONDecodeError"
    using body by (simp_all add: example_json_loads_def) (simp add: example_body_def)
  obtain e evs where i: "JsonFieldValueCheck_init example_incident_map ?up example_client =
      Inr (e, evs)" and s: "incident_status e = PARTIAL_OUTAGE"
    by (simp add: JsonFieldValueCheck_init_def configuration_item_def and_then_def init_def
        parse_incident_status_cases configuration_get_def)
  obtain e' evs' where i': "JsonFieldValueCheck_init example_incident_map ?null example_client =
      Inr (e', evs')" and s': "incident_status e' = PARTIAL_OUTAGE"
    by (simp add: JsonFieldValueCheck_init_def configuration_item_def and_then_def init_def
        parse_incident_status_cases configuration_get_def)
  have c: "?up ''field'' = Some (PStr ''data.status'')" "?up ''value'' = Some (PStr ''UP'')"
    "?null ''field'' = Some (PStr ''data.status'')" "?null ''value'' = Some PNone"
    by simp_all
  note t = JsonFieldValueCheck_get_status_absorbs_errors [OF i c(1,2),
      where json_loads = example_json_loads, THEN conjunct1]
  have up: "get_status example_json_loads e (?r example_body) = Inr OPERATIONAL"
    using t [of "?r example_body"] by (simp add: loads fs)
  have missing: "get_status example_json_loads e (?r ''{}'') = Inr PARTIAL_OUTAGE"
    using JsonFieldValueCheck_get_status_absorbs_errors [OF i c(1,2),
      where json_loads = example_json_loads and resp = "?r ''{}''" and doc = "PDict []",
      THEN conjunct2, THEN conjunct1]
    by (simp add: loads fs s)
  have mismatch: "get_status example_json_loads e (?r ''[1]'') = Inr PARTIAL_OUTAGE"
    using t [of "?r ''[1]''"] by (simp add: loads fs s)
  have unparsable: "get_status example_json_loads e (?r ''<html>'') = Inr PARTIAL_OUTAGE"
    using t [of "?r ''<html>''"] by (simp add: loads fs s)
  have null: "get_status example_json_loads e' (?r ''{}'') = Inr OPERATIONAL"
    using JsonFieldValueCheck_get_status_absorbs_errors [OF i' c(3,4),
      where json_loads = example_json_loads and resp = "?r ''{}''" and doc = "PDict []",
      THEN conjunct2, THEN conjunct2]
    by (simp add: loads fs)
  from i up missing mismatch unparsable i' null show ?thesis by blast
qed

end
